theory Spec2Isabelle
  imports Main
begin

section \<open>The layer tree of \<^verbatim>\<open>lib/layer.js\<close>\<close>

text \<open>
  The module keeps the layer stack of a document as a tree of objects. Every object is a
  \<^verbatim>\<open>BaseLayer\<close>; the subclass \<^verbatim>\<open>LayerGroup\<close> owns the array \<^verbatim>\<open>layers\<close> of its
  children, the six other subclasses are leaves.

  A raw descriptor is the record the host sends; the same kind of record serves as a
  change record. A field that a record may lack (\<^verbatim>\<open>hasOwnProperty\<close> is false, reading it
  gives \<^verbatim>\<open>undefined\<close>) is an \<open>option\<close>; the flags \<^verbatim>\<open>added\<close> and \<^verbatim>\<open>removed\<close> are only
  tested for truth, so a missing flag is \<open>False\<close>. Indices and sizes are JavaScript
  numbers that hold integers: \<open>int\<close>. The payloads that no method of the module reads
  (bounds, visible, clipped, mask, generatorSettings, pixels, ...) are left out.

  The field \<^verbatim>\<open>group\<close> of an object refers to the composite that owns it. The tree is
  modelled by value, so the reference is kept as a handle: the id of the object it
  points to (ids are unique in a document), \<open>None\<close> for \<^verbatim>\<open>null\<close>.
\<close>

type_synonym ref = string

record descriptor =
  id' :: string
  index :: "int option"
  type' :: "string option"
  name :: "string option"

record base = descriptor +
  group :: "ref option"

record change = descriptor +
  added :: bool
  removed :: bool

datatype raw = Raw (props: change) (layers: "raw list option")

datatype leafClass =
  Layer | BackgroundLayer | ShapeLayer | TextLayer | AdjustmentLayer | SmartObjectLayer

datatype layer =
  Leaf leafClass base
| LayerGroup base "layer list"

fun attrs :: "layer \<Rightarrow> base" where
  "attrs (Leaf c a) = a"
| "attrs (LayerGroup a ls) = a"

fun isLayerGroup :: "layer \<Rightarrow> bool" where
  "isLayerGroup (Leaf c a) = False"
| "isLayerGroup (LayerGroup a ls) = True"

subsection \<open>getSize\<close>

text \<open>
  \<^verbatim>\<open>BaseLayer.prototype.getSize\<close> returns 1; \<^verbatim>\<open>LayerGroup.prototype.getSize\<close> is
  \<^verbatim>\<open>this.layers.reduce(function (size, layer) { return size + layer.getSize(); }, 2)\<close>.
\<close>

fun getSize :: "layer \<Rightarrow> int" where
  "getSize (Leaf c a) = 1"
| "getSize (LayerGroup a ls) = fold (\<lambda>layer size. size + getSize layer) ls 2"

subsection \<open>The constructor of the base class\<close>

text \<open>
  \<^verbatim>\<open>function BaseLayer(group, raw)\<close> stores the back-reference and copies the fields of
  the raw descriptor.
\<close>

definition BaseLayer :: "ref option \<Rightarrow> change \<Rightarrow> base" where
  "BaseLayer g r =
     \<lparr>id' = id' r, index = index r, type' = type' r, name = name r, group = g\<rparr>"

fun mapAttrs :: "(base \<Rightarrow> base) \<Rightarrow> layer \<Rightarrow> layer" where
  "mapAttrs f (Leaf c a) = Leaf c (f a)"
| "mapAttrs f (LayerGroup a ls) = LayerGroup (f a) ls"

subsection \<open>Failures\<close>

text \<open>
  \<^verbatim>\<open>assert\<close> and \<^verbatim>\<open>assert.strictEqual\<close> throw an AssertionError; reading a property of
  \<^verbatim>\<open>undefined\<close> or calling a method an object does not have throws a TypeError; the two
  \<^verbatim>\<open>throw new Error(...)\<close> of the module are told apart by their message.
\<close>

datatype error =
  AssertionError
| TypeError
| UnknownLayerType
| CantFindChangedLayer

subsection \<open>setName\<close>

text \<open>
  \<^verbatim>\<open>if (this.name !== name) { var previousName = name; this.name = name;
       return ["rename", name, previousName]; }\<close>
  The result is the node after the call and the returned array, \<open>None\<close> when the method
  returns nothing.
\<close>

type_synonym renameResult = "string \<times> string option \<times> string option"

definition setName :: "layer \<Rightarrow> string option \<Rightarrow> layer \<times> renameResult option" where
  "setName this nm =
     (if name (attrs this) \<noteq> nm then
        (let previousName = nm;
             this' = mapAttrs (\<lambda>a. a\<lparr>name := nm\<rparr>) this
         in (this', Some (''rename'', nm, previousName)))
      else (this, None))"

subsection \<open>The change of a single node\<close>

text \<open>
  \<^verbatim>\<open>BaseLayer.prototype._applyChange\<close>. The array \<^verbatim>\<open>changes\<close> is what the method returns;
  the only statement that adds to it is \<^verbatim>\<open>changes.push(changes)\<close>, under the test
  \<^verbatim>\<open>if (change)\<close>, which holds for every record. An element of the array is therefore
  either a rename result or the array itself.
\<close>

datatype changeEntry =
  RenameResult renameResult
| ChangesArray

definition BaseLayer_applyChange :: "layer \<Rightarrow> change \<Rightarrow> error + layer \<times> changeEntry list" where
  "BaseLayer_applyChange this chg =
     (if id' (attrs this) \<noteq> id' chg then Inl AssertionError
      else
        (let changes = [] in
         case name chg of
           None \<Rightarrow> Inr (this, changes)
         | Some nm \<Rightarrow>
             (let (this', result) = setName this (Some nm)
              in Inr (this', changes @ [ChangesArray]))))"

subsection \<open>detach\<close>

text \<open>
  \<^verbatim>\<open>detach\<close> follows the back-reference \<^verbatim>\<open>this.group\<close> and splices the child array of the
  object it finds there, so it is modelled over a store that maps a reference to the
  object it denotes; the node itself is given by its reference. \<^verbatim>\<open>some\<close> visits the
  children from the left and stops at the first whose id is the node's; the variable
  \<^verbatim>\<open>index\<close> (written \<open>idx\<close>) keeps \<open>-1\<close> when there is none. The method writes to the
  child array of the owner and to nothing else. A reference that the store does not
  resolve does not occur in JavaScript; the model answers it, like an owner that has no
  array \<^verbatim>\<open>layers\<close>, with a TypeError.
\<close>

type_synonym store = "ref \<Rightarrow> layer option"

fun someChild :: "string \<Rightarrow> layer list \<Rightarrow> nat \<Rightarrow> int \<Rightarrow> int" where
  "someChild ident [] i idx = idx"
| "someChild ident (child # rest) i idx =
     (if id' (attrs child) = ident then int i else someChild ident rest (Suc i) idx)"

definition detach :: "store \<Rightarrow> ref \<Rightarrow> error + store" where
  "detach s r =
     (case s r of
        None \<Rightarrow> Inl TypeError
      | Some this \<Rightarrow>
          (case group (attrs this) of
             None \<Rightarrow> Inr s
           | Some parent \<Rightarrow>
               (case s parent of
                  Some (LayerGroup a ls) \<Rightarrow>
                    (let idx = someChild (id' (attrs this)) ls 0 (- 1) in
                     if idx > - 1
                     then Inr (s(parent \<mapsto>
                            LayerGroup a (take (nat idx) ls @ drop (Suc (nat idx)) ls)))
                     else Inl AssertionError)
                | _ \<Rightarrow> Inl TypeError)))"

subsection \<open>addLayerAtIndex\<close>

text \<open>
  The \<^verbatim>\<open>for\<close> loop of \<^verbatim>\<open>LayerGroup.prototype.addLayerAtIndex\<close> is \<open>scanLayers\<close>, over the
  children not yet visited, with the loop variables \<^verbatim>\<open>index\<close> (written \<open>idx\<close>),
  \<^verbatim>\<open>currentIndex\<close> and \<^verbatim>\<open>nextIndex\<close>. It ends in one of two ways: the method has recursed
  into the child at \<open>idx\<close> and returned (\<open>Returned\<close>, with that child and the added node
  as the call left them), or the loop has been left by \<^verbatim>\<open>break\<close> or by its condition
  (\<open>Exited\<close>); the assertion, the assignment to \<^verbatim>\<open>childToAdd.group\<close> and the \<^verbatim>\<open>splice\<close>
  follow the loop. The method exists on composites only. The result holds the two
  objects the method writes to: the composite and the node that was added, which is an
  object of its own and no part of the composite before the call. Nothing is written
  before the assertion, so a failure leaves both as they were.
\<close>

datatype outcome =
  Returned nat layer layer
| Exited nat int

fun addLayerAtIndex :: "layer \<Rightarrow> layer \<Rightarrow> int \<Rightarrow> error + layer \<times> layer"
  and scanLayers :: "layer list \<Rightarrow> nat \<Rightarrow> layer \<Rightarrow> int \<Rightarrow> int \<Rightarrow> int \<Rightarrow> error + outcome"
where
  "addLayerAtIndex (Leaf c a) childToAdd targetIndex = Inl TypeError"
| "addLayerAtIndex (LayerGroup a ls) childToAdd targetIndex =
     (case scanLayers ls 0 childToAdd targetIndex (getSize childToAdd - 1) (getSize childToAdd - 1) of
        Inl e \<Rightarrow> Inl e
      | Inr (Returned idx child childAdded) \<Rightarrow>
          Inr (LayerGroup a (ls[idx := child]), childAdded)
      | Inr (Exited idx currentIndex) \<Rightarrow>
          (if currentIndex = targetIndex then
             (let childAdded = mapAttrs (\<lambda>b. b\<lparr>group := Some (id' a)\<rparr>) childToAdd
              in Inr (LayerGroup a (take idx ls @ childAdded # drop idx ls), childAdded))
           else Inl AssertionError))"
| "scanLayers [] idx childToAdd targetIndex currentIndex nextIndex =
     Inr (Exited idx currentIndex)"
| "scanLayers (child # rest) idx childToAdd targetIndex currentIndex nextIndex =
     (if targetIndex \<le> currentIndex then Inr (Exited idx currentIndex)
      else
        (let nextIndex = nextIndex + getSize child in
         if targetIndex < nextIndex \<and> isLayerGroup child then
           (case addLayerAtIndex child childToAdd (targetIndex - (currentIndex + 1)) of
              Inl e \<Rightarrow> Inl e
            | Inr (child', childAdded) \<Rightarrow> Inr (Returned idx child' childAdded))
         else scanLayers rest (Suc idx) childToAdd targetIndex nextIndex nextIndex))"

subsection \<open>findLayer\<close>

text \<open>
  The callback of \<^verbatim>\<open>this.layers.some\<close> in \<^verbatim>\<open>LayerGroup.prototype.findLayer\<close> is \<open>findIn\<close>,
  over the children not yet visited, with the variable \<^verbatim>\<open>currentIndex\<close>. The method
  exists on composites only; the callback calls it on a child after the test
  \<^verbatim>\<open>child instanceof LayerGroup\<close>.
\<close>

fun findLayer :: "layer \<Rightarrow> string \<Rightarrow> error + (layer \<times> int) option"
  and findIn :: "layer list \<Rightarrow> string \<Rightarrow> int \<Rightarrow> error + (layer \<times> int) option"
where
  "findLayer (Leaf c a) ident = Inl TypeError"
| "findLayer (LayerGroup a ls) ident = findIn ls ident 0"
| "findIn [] ident currentIndex = Inr None"
| "findIn (child # rest) ident currentIndex =
     (if isLayerGroup child then
        (let currentIndex = currentIndex + 1 in
         case findLayer child ident of
           Inl e \<Rightarrow> Inl e
         | Inr (Some (l, i)) \<Rightarrow> Inr (Some (l, i + currentIndex))
         | Inr None \<Rightarrow>
             (let currentIndex = currentIndex + (getSize child - 2) in
              if id' (attrs child) = ident then Inr (Some (child, currentIndex))
              else findIn rest ident (currentIndex + 1)))
      else if id' (attrs child) = ident then Inr (Some (child, currentIndex))
      else findIn rest ident (currentIndex + 1))"

subsection \<open>Sorting raw records by index\<close>

text \<open>
  \<^verbatim>\<open>sort(function (l1, l2) { return l1.index - l2.index; })\<close>. The difference is
  \<^verbatim>\<open>NaN\<close> when a record has no index, and \<^verbatim>\<open>sort\<close> reads \<^verbatim>\<open>NaN\<close> as 0. The sort is
  taken to be stable (insertion sort, which is what the engine runs on short arrays).
  For records that all have an index this is the ascending order the language
  guarantees up to the order of equal indices. For an array in which some record has
  no index the comparison is not consistent and the language leaves the order to the
  engine: \<open>sortByIndex\<close> is then one possible order, and no statement below that is made
  for all batches depends on it.
\<close>

definition compareIndex :: "raw \<Rightarrow> raw \<Rightarrow> int" where
  "compareIndex l1 l2 =
     (case (index (props l1), index (props l2)) of
        (Some i1, Some i2) \<Rightarrow> i1 - i2
      | _ \<Rightarrow> 0)"

fun insertByIndex :: "raw \<Rightarrow> raw list \<Rightarrow> raw list" where
  "insertByIndex l [] = [l]"
| "insertByIndex l (l2 # rest) =
     (if compareIndex l l2 \<le> 0 then l # l2 # rest else l2 # insertByIndex l rest)"

definition sortByIndex :: "raw list \<Rightarrow> raw list" where
  "sortByIndex rs = foldr insertByIndex rs []"

lemma size_insertByIndex:
  "size_list size (insertByIndex l rs) = Suc (size l + size_list size rs)"
  by (induction rs) simp_all

lemma size_sortByIndex: "size_list size (sortByIndex rs) = size_list size rs"
  by (induction rs) (simp_all add: sortByIndex_def size_insertByIndex)

subsection \<open>createLayer and the constructor of LayerGroup\<close>

text \<open>
  \<open>leafClassFor\<close> is the \<^verbatim>\<open>switch\<close> of \<^verbatim>\<open>createLayer\<close> without its first case
  (\<^verbatim>\<open>"layerSection"\<close>) and without its default. \<open>newLayerGroup\<close> is
  \<^verbatim>\<open>new LayerGroup(group, raw)\<close> and \<open>addEach\<close> the \<^verbatim>\<open>forEach\<close> of that constructor over
  the sorted raw children, with the variable \<^verbatim>\<open>targetIndex\<close>. The parent is passed as
  the reference that ends in the field \<^verbatim>\<open>group\<close>.
\<close>

definition leafClassFor :: "string \<Rightarrow> leafClass option" where
  "leafClassFor t =
     (if t = ''layer'' then Some Layer
      else if t = ''shapeLayer'' then Some ShapeLayer
      else if t = ''textLayer'' then Some TextLayer
      else if t = ''adjustmentLayer'' then Some AdjustmentLayer
      else if t = ''smartObjectLayer'' then Some SmartObjectLayer
      else if t = ''backgroundLayer'' then Some BackgroundLayer
      else None)"

function createLayer :: "ref option \<Rightarrow> raw \<Rightarrow> error + layer"
  and newLayerGroup :: "ref option \<Rightarrow> raw \<Rightarrow> error + layer"
  and addEach :: "layer \<Rightarrow> raw list \<Rightarrow> int \<Rightarrow> error + layer"
where
  "createLayer parent rawLayer =
     (if parent = None \<and> type' (props rawLayer) = None then newLayerGroup None rawLayer
      else
        (case type' (props rawLayer) of
           None \<Rightarrow> Inl UnknownLayerType
         | Some t \<Rightarrow>
             if t = ''layerSection'' then newLayerGroup parent rawLayer
             else
               (case leafClassFor t of
                  Some c \<Rightarrow> Inr (Leaf c (BaseLayer parent (props rawLayer)))
                | None \<Rightarrow> Inl UnknownLayerType)))"
| "newLayerGroup g (Raw f ls) =
     (let this = LayerGroup (BaseLayer g f) [] in
      case ls of
        None \<Rightarrow> Inr this
      | Some rawLayers \<Rightarrow> addEach this (sortByIndex rawLayers) 0)"
| "addEach this [] targetIndex = Inr this"
| "addEach this (rawLayer # rest) targetIndex =
     (case createLayer (Some (id' (attrs this))) rawLayer of
        Inl e \<Rightarrow> Inl e
      | Inr l \<Rightarrow>
          (let targetIndex = targetIndex + (getSize l - 1) in
           case addLayerAtIndex this l targetIndex of
             Inl e \<Rightarrow> Inl e
           | Inr (this', l') \<Rightarrow> addEach this' rest (targetIndex + 1)))"
  by pat_completeness auto
termination
  by (relation "measure (\<lambda>x. case x of
         Inl (p, r) \<Rightarrow> 2 * size r + 1
       | Inr (Inl (g, r)) \<Rightarrow> 2 * size r
       | Inr (Inr (this, rs, t)) \<Rightarrow> 2 * size_list size rs + 1)")
     (auto simp: size_sortByIndex)

declare createLayer.simps [simp del]

subsection \<open>The change applicator\<close>

text \<open>
  \<^verbatim>\<open>LayerGroup.prototype._applyChange(changedLayers, rawLayerChanges, parentIndex)\<close>.
  \<^verbatim>\<open>changedLayers\<close> maps an id to a record of the caller's with the fields \<^verbatim>\<open>layer\<close> and
  \<^verbatim>\<open>previousGroup\<close> (\<open>None\<close>: the field is not set). The record shares the node with the
  tree; in this model by value a record is brought in step with its node whenever the
  method writes to the node through the record's own id. The caller hands over nodes
  that it has detached from the tree.

  \<open>materializeChild\<close> is the first statement of the first \<^verbatim>\<open>forEach\<close> (the
  \<^verbatim>\<open>if (rawLayerChange.added) ... else ...\<close>): \<open>Inr None\<close> is its \<^verbatim>\<open>return\<close>, otherwise it
  gives the variable \<^verbatim>\<open>child\<close> (\<open>None\<close> for \<^verbatim>\<open>undefined\<close>) and the map. \<open>materialize\<close> is
  the first \<^verbatim>\<open>forEach\<close>, with the variable \<^verbatim>\<open>finalSize\<close>, and \<open>place\<close> the second.

  Called on a leaf, \<^verbatim>\<open>_applyChange\<close> is the method of the base class, which takes its first
  argument, the map, for a change record; the map has no field \<^verbatim>\<open>id\<close> that is a string,
  so \<^verbatim>\<open>assert.strictEqual(this.id, change.id)\<close> fails.

  The map is a JavaScript object, taken to be one that the caller makes with an object
  literal. The tests \<^verbatim>\<open>changedLayers.hasOwnProperty(id)\<close> see its own entries only. The
  statement \<^verbatim>\<open>changedLayers[id].layer = child\<close> of the added branch has no such test
  before it and reads \<^verbatim>\<open>changedLayers[id]\<close> through the prototype chain: under a name
  of a property of \<^verbatim>\<open>Object.prototype\<close> (\<open>inheritedProperty\<close>) and without an own entry
  it finds an inherited object, and the assignment writes the field \<^verbatim>\<open>layer\<close> of that
  object: nothing is thrown and the map keeps its entries. Every other read of the map
  in the module comes after a test of \<^verbatim>\<open>hasOwnProperty\<close>, so the object written to is
  not read again through the map, and the model does not keep it. (Under the name
  \<^verbatim>\<open>__proto__\<close> that object is \<^verbatim>\<open>Object.prototype\<close> itself, whose field \<^verbatim>\<open>layer\<close> every
  object then inherits; the model takes \<^verbatim>\<open>Object.prototype\<close> as the engine provides it
  and does not follow such a write.)
\<close>

definition inheritedProperty :: "string \<Rightarrow> bool" where
  "inheritedProperty ident =
     (ident \<in> set [''constructor'', ''toString'', ''toLocaleString'', ''valueOf'',
                    ''hasOwnProperty'', ''isPrototypeOf'', ''propertyIsEnumerable'',
                    ''__proto__'', ''__defineGetter__'', ''__defineSetter__'',
                    ''__lookupGetter__'', ''__lookupSetter__''])"

record layerRec =
  layer :: "layer option"
  previousGroup :: "ref option option"

type_synonym changedLayers = "string \<Rightarrow> layerRec option"

definition materializeChild ::
  "layer \<Rightarrow> changedLayers \<Rightarrow> raw \<Rightarrow> error + (layer option \<times> changedLayers) option" where
  "materializeChild this cl rawLayerChange =
     (let ident = id' (props rawLayerChange) in
      if added (props rawLayerChange) then
        (case createLayer (Some (id' (attrs this))) rawLayerChange of
           Inl e \<Rightarrow> Inl e
         | Inr child \<Rightarrow>
             (case cl ident of
                None \<Rightarrow>
                  if inheritedProperty ident then Inr (Some (Some child, cl))
                  else Inl TypeError
              | Some layerRec \<Rightarrow>
                  Inr (Some (Some child, cl(ident \<mapsto> layerRec\<lparr>layer := Some child\<rparr>)))))
      else
        (case cl ident of
           None \<Rightarrow>
             if removed (props rawLayerChange) then Inr None
             else Inl CantFindChangedLayer
         | Some layerRec \<Rightarrow> Inr (Some (layer layerRec, cl))))"

definition inStep :: "changedLayers \<Rightarrow> string \<Rightarrow> layer \<Rightarrow> changedLayers" where
  "inStep cl ident child =
     (case cl ident of
        None \<Rightarrow> cl
      | Some layerRec \<Rightarrow> cl(ident \<mapsto> layerRec\<lparr>layer := Some child\<rparr>))"

fun place :: "layer \<Rightarrow> changedLayers \<Rightarrow> raw list \<Rightarrow> int \<Rightarrow> error + layer \<times> changedLayers" where
  "place this cl [] offset = Inr (this, cl)"
| "place this cl (rawLayerChange # rest) offset =
     (case index (props rawLayerChange) of
        None \<Rightarrow> place this cl rest offset
      | Some idx \<Rightarrow>
          if removed (props rawLayerChange) then place this cl rest offset
          else
            (let ident = id' (props rawLayerChange) in
             case cl ident of
               None \<Rightarrow> place this cl rest offset
             | Some layerRec \<Rightarrow>
                 (let relativeIndex = idx - offset in
                  case layer layerRec of
                    None \<Rightarrow> Inl TypeError
                  | Some child \<Rightarrow>
                      (let layerRec = layerRec\<lparr>previousGroup := Some (group (attrs child))\<rparr> in
                       case addLayerAtIndex this child relativeIndex of
                         Inl e \<Rightarrow> Inl e
                       | Inr (this', child') \<Rightarrow>
                           place this' (cl(ident \<mapsto> layerRec\<lparr>layer := Some child'\<rparr>))
                             rest offset))))"

function LayerGroup_applyChange ::
    "layer \<Rightarrow> changedLayers \<Rightarrow> raw list \<Rightarrow> int option \<Rightarrow> error + layer \<times> changedLayers"
  and materialize ::
    "layer \<Rightarrow> changedLayers \<Rightarrow> raw list \<Rightarrow> int \<Rightarrow> error + changedLayers \<times> int"
where
  "LayerGroup_applyChange (Leaf c a) cl rawLayerChanges parentIndex = Inl AssertionError"
| "LayerGroup_applyChange (LayerGroup a ls) cl rawLayerChanges parentIndex =
     (let this = LayerGroup a ls;
          finalSize = getSize this;
          sorted = sortByIndex rawLayerChanges
      in case materialize this cl sorted finalSize of
           Inl e \<Rightarrow> Inl e
         | Inr (cl', finalSize) \<Rightarrow>
             (let offset = (case parentIndex of
                              None \<Rightarrow> 0
                            | Some p \<Rightarrow> p - (finalSize - 2))
              in place this cl' sorted offset))"
| "materialize this cl [] finalSize = Inr (cl, finalSize)"
| "materialize this cl (Raw f nested # rest) finalSize =
     (case index f of
        None \<Rightarrow> materialize this cl rest finalSize
      | Some idx \<Rightarrow>
          (case materializeChild this cl (Raw f nested) of
             Inl e \<Rightarrow> Inl e
           | Inr None \<Rightarrow> materialize this cl rest finalSize
           | Inr (Some (child, cl1)) \<Rightarrow>
               (case (case nested of
                        None \<Rightarrow> Inr (child, cl1)
                      | Some rawLayers \<Rightarrow>
                          (case child of
                             None \<Rightarrow> Inl TypeError
                           | Some c \<Rightarrow>
                               (case LayerGroup_applyChange c cl1 rawLayers (Some idx) of
                                  Inl e \<Rightarrow> Inl e
                                | Inr (c', cl2) \<Rightarrow> Inr (Some c', inStep cl2 (id' f) c')))) of
                  Inl e \<Rightarrow> Inl e
                | Inr (child', cl3) \<Rightarrow>
                    if removed f then materialize this cl3 rest finalSize
                    else
                      (case child' of
                         None \<Rightarrow> Inl TypeError
                       | Some c \<Rightarrow> materialize this cl3 rest (finalSize + getSize c)))))"
  by pat_completeness auto
termination
  by (relation "measure (\<lambda>x. case x of
         Inl (this, cl, rs, p) \<Rightarrow> 2 * size_list size rs + 1
       | Inr (this, cl, rs, n) \<Rightarrow> 2 * size_list size rs)")
     (auto simp: size_sortByIndex)

subsection \<open>The flattened index space of the specification\<close>

text \<open>
  The specification places the nodes of a composite in one linear order, a preorder
  traversal with markers: a leaf takes one slot, a composite the slot of its opening
  marker, then the slots of its children, then the slot of its closing marker. \<open>flatten\<close>
  is that traversal and \<open>inner\<close> the part of it between the two markers of a composite:
  the frame in which positions relative to the composite are counted, from 0.

  The specification calls the flattened position of a node the slot of the node or, for
  a composite, of its opening marker (\<open>flattenedPosition\<close>). \<open>lastSlotPosition\<close> is the
  slot of the node or, for a composite, of its closing marker.
\<close>

datatype slot =
  OpenMarker string
| LeafSlot string
| CloseMarker string

fun flatten :: "layer \<Rightarrow> slot list" where
  "flatten (Leaf c a) = [LeafSlot (id' a)]"
| "flatten (LayerGroup a ls) =
     OpenMarker (id' a) # concat (map flatten ls) @ [CloseMarker (id' a)]"

fun layersOf :: "layer \<Rightarrow> layer list" where
  "layersOf (Leaf c a) = []"
| "layersOf (LayerGroup a ls) = ls"

abbreviation idOf :: "layer \<Rightarrow> string" where
  "idOf l \<equiv> id' (attrs l)"

definition inner :: "layer \<Rightarrow> slot list" where
  "inner g = concat (map flatten (layersOf g))"

fun subtree :: "layer \<Rightarrow> layer list" where
  "subtree (Leaf c a) = [Leaf c a]"
| "subtree (LayerGroup a ls) = LayerGroup a ls # concat (map subtree ls)"

definition descendants :: "layer \<Rightarrow> layer list" where
  "descendants g = concat (map subtree (layersOf g))"

fun firstIndex :: "('a \<Rightarrow> bool) \<Rightarrow> 'a list \<Rightarrow> nat option" where
  "firstIndex P [] = None"
| "firstIndex P (y # ys) = (if P y then Some 0 else map_option Suc (firstIndex P ys))"

definition indexOf :: "'a \<Rightarrow> 'a list \<Rightarrow> nat option" where
  "indexOf x xs = firstIndex (\<lambda>y. y = x) xs"

definition openingSlot :: "layer \<Rightarrow> slot" where
  "openingSlot n =
     (if isLayerGroup n then OpenMarker (id' (attrs n)) else LeafSlot (id' (attrs n)))"

definition closingSlot :: "layer \<Rightarrow> slot" where
  "closingSlot n =
     (if isLayerGroup n then CloseMarker (id' (attrs n)) else LeafSlot (id' (attrs n)))"

definition closes :: "string \<Rightarrow> slot \<Rightarrow> bool" where
  "closes ident s = (s = LeafSlot ident \<or> s = CloseMarker ident)"

definition flattenedPosition :: "layer \<Rightarrow> layer \<Rightarrow> nat option" where
  "flattenedPosition g n = indexOf (openingSlot n) (inner g)"

definition lastSlotPosition :: "layer \<Rightarrow> layer \<Rightarrow> nat option" where
  "lastSlotPosition g n = indexOf (closingSlot n) (inner g)"

subsection \<open>The snapshot of the specification's scenarios\<close>

text \<open>
  \<^verbatim>\<open>{id:"root", layers:[{id:"A", index:0, type:"layer"},
       {id:"G", index:1, type:"layerSection", layers:[{id:"B", index:0, type:"layer"}]}]}\<close>
  and the tree root[A, G[B]] that \<open>createLayer\<close> builds from it.
\<close>

definition rawRecord :: "string \<Rightarrow> int option \<Rightarrow> string option \<Rightarrow> change" where
  "rawRecord i ix t =
     \<lparr>id' = i, index = ix, type' = t, name = None, added = False, removed = False\<rparr>"

definition snapshotRaw :: raw where
  "snapshotRaw =
     Raw (rawRecord ''root'' None None)
       (Some [Raw (rawRecord ''A'' (Some 0) (Some ''layer'')) None,
              Raw (rawRecord ''G'' (Some 1) (Some ''layerSection''))
                (Some [Raw (rawRecord ''B'' (Some 0) (Some ''layer'')) None])])"

definition nodeA :: layer where
  "nodeA = Leaf Layer \<lparr>id' = ''A'', index = Some 0, type' = Some ''layer'', name = None,
                        group = Some ''root''\<rparr>"

definition nodeB :: layer where
  "nodeB = Leaf Layer \<lparr>id' = ''B'', index = Some 0, type' = Some ''layer'', name = None,
                        group = Some ''G''\<rparr>"

definition nodeG :: layer where
  "nodeG = LayerGroup \<lparr>id' = ''G'', index = Some 1, type' = Some ''layerSection'',
                        name = None, group = Some ''root''\<rparr> [nodeB]"

definition rootAttrs :: base where
  "rootAttrs = \<lparr>id' = ''root'', index = None, type' = None, name = None, group = None\<rparr>"

definition snapshotRoot :: layer where
  "snapshotRoot = LayerGroup rootAttrs [nodeA, nodeG]"

definition snapshotStore :: store where
  "snapshotStore =
     [''root'' \<mapsto> snapshotRoot, ''A'' \<mapsto> nodeA, ''G'' \<mapsto> nodeG, ''B'' \<mapsto> nodeB]"

text \<open>
  The added leaf C of the last scenario: the change record
  \<^verbatim>\<open>{id:"C", index:i, type:t, added:true}\<close>, the node \<open>createLayer\<close> builds from it under
  the root for index 4 and type "layer", and the map in which the caller has registered
  the id.
\<close>

definition addedC :: "int \<Rightarrow> string option \<Rightarrow> raw" where
  "addedC i t = Raw ((rawRecord ''C'' (Some i) t)\<lparr>added := True\<rparr>) None"

definition nodeC :: layer where
  "nodeC = Leaf Layer \<lparr>id' = ''C'', index = Some 4, type' = Some ''layer'', name = None,
                        group = Some ''root''\<rparr>"

text \<open>An empty group H, to be added to the snapshot tree.\<close>

definition nodeH :: layer where
  "nodeH = LayerGroup \<lparr>id' = ''H'', index = Some 1, type' = Some ''layerSection'',
                        name = None, group = Some ''root''\<rparr> []"

definition registeredC :: changedLayers where
  "registeredC = [''C'' \<mapsto> \<lparr>layer = None, previousGroup = None\<rparr>]"

section \<open>Flattened size\<close>

lemma fold_getSize: "fold (\<lambda>layer size. size + getSize layer) ls n = n + sum_list (map getSize ls)"
  by (induction ls arbitrary: n) simp_all

text \<open>
  Claim C1. The size of a composite is 2 plus the sum of the sizes of its children, and
  the size of a leaf of any of the six leaf classes is 1.
\<close>

theorem getSize_composite_and_leaf:
  "getSize (LayerGroup a ls) = 2 + sum_list (map getSize ls) \<and> getSize (Leaf c b) = 1"
  by (simp add: fold_getSize)

lemma getSize_pos: "1 \<le> getSize l"
proof (induction l)
  case (Leaf c a)
  show ?case by simp
next
  case (LayerGroup a ls)
  have "0 \<le> sum_list (map getSize ls)"
  proof (rule sum_list_nonneg)
    fix x
    assume "x \<in> set (map getSize ls)"
    then obtain l where "l \<in> set ls" and "x = getSize l" by auto
    with LayerGroup show "0 \<le> x" by force
  qed
  then show ?case by (simp add: fold_getSize)
qed

lemma sum_getSize_nonneg: "0 \<le> sum_list (map getSize ls)"
proof (rule sum_list_nonneg)
  fix x
  assume "x \<in> set (map getSize ls)"
  then obtain l where "x = getSize l" by auto
  with getSize_pos [of l] show "0 \<le> x" by simp
qed

section \<open>Renaming\<close>

lemma setName_same: "name (attrs this) = nm \<Longrightarrow> setName this nm = (this, None)"
  by (simp add: setName_def)

lemma setName_differs:
  "name (attrs this) \<noteq> nm \<Longrightarrow>
   setName this nm = (mapAttrs (\<lambda>a. a\<lparr>name := nm\<rparr>) this, Some (''rename'', nm, nm))"
  by (simp add: setName_def)

text \<open>
  Claim C4. Renaming to the current name changes nothing and returns nothing
  (\<open>setName_same\<close>). Renaming to another name sets the name, but the result does not hold
  the name the node had before: \<^verbatim>\<open>previousName\<close> is read from the parameter, so the third
  field of the result is the new name again (\<open>setName_differs\<close>). Here the layer A, named
  "A", is renamed to "A2": the result names "A2" as the previous name.
\<close>

theorem setName_previous_name_is_new_name:
  "setName (Leaf Layer \<lparr>id' = ''A'', index = Some 0, type' = Some ''layer'', name = Some ''A'',
              group = Some ''root''\<rparr>) (Some ''A2'')
   = (Leaf Layer \<lparr>id' = ''A'', index = Some 0, type' = Some ''layer'', name = Some ''A2'',
              group = Some ''root''\<rparr>,
      Some (''rename'', Some ''A2'', Some ''A2''))"
  by (simp add: setName_def)

lemma BaseLayer_applyChange_named:
  "id' (attrs this) = id' chg \<Longrightarrow> name chg = Some nm \<Longrightarrow>
   BaseLayer_applyChange this chg = Inr (fst (setName this (Some nm)), [ChangesArray])"
  by (simp add: BaseLayer_applyChange_def split: prod.splits)

text \<open>
  Claim C5. For a change record that carries a name, the method of the base class
  returns an array of one element, the array itself: whether the name differs or not, and
  never the rename result (\<open>BaseLayer_applyChange_named\<close>). Here the layer A, named "A",
  receives first a record with the name "A", then one with the name "A2": in both cases
  the returned array is not empty and holds no rename result.
\<close>

theorem BaseLayer_applyChange_pushes_changes:
  "BaseLayer_applyChange
     (Leaf Layer \<lparr>id' = ''A'', index = Some 0, type' = Some ''layer'', name = Some ''A'',
              group = Some ''root''\<rparr>)
     \<lparr>id' = ''A'', index = None, type' = None, name = Some ''A'', added = False, removed = False\<rparr>
   = Inr (Leaf Layer \<lparr>id' = ''A'', index = Some 0, type' = Some ''layer'', name = Some ''A'',
              group = Some ''root''\<rparr>, [ChangesArray])
   \<and> BaseLayer_applyChange
     (Leaf Layer \<lparr>id' = ''A'', index = Some 0, type' = Some ''layer'', name = Some ''A'',
              group = Some ''root''\<rparr>)
     \<lparr>id' = ''A'', index = None, type' = None, name = Some ''A2'', added = False, removed = False\<rparr>
   = Inr (Leaf Layer \<lparr>id' = ''A'', index = Some 0, type' = Some ''layer'', name = Some ''A2'',
              group = Some ''root''\<rparr>, [ChangesArray])"
  by (simp add: BaseLayer_applyChange_def setName_def)

section \<open>The materialize phase of the change applicator\<close>

















section \<open>Detaching a node\<close>

lemma someChild_absent:
  "ident \<notin> set (map (\<lambda>l. id' (attrs l)) ls) \<Longrightarrow> someChild ident ls i idx = idx"
  by (induction ls arbitrary: i) auto

lemma someChild_present:
  "ident \<in> set (map (\<lambda>l. id' (attrs l)) ls) \<Longrightarrow>
   \<exists>j<length ls. someChild ident ls i idx = int (i + j) \<and> id' (attrs (ls ! j)) = ident"
proof (induction ls arbitrary: i)
  case Nil
  then show ?case by simp
next
  case (Cons child rest)
  show ?case
  proof (cases "id' (attrs child) = ident")
    case True
    then show ?thesis by (intro exI [of _ 0]) simp
  next
    case False
    with Cons.prems have "ident \<in> set (map (\<lambda>l. id' (attrs l)) rest)" by auto
    from Cons.IH [OF this, of "Suc i"] obtain j where
      j: "j < length rest" "someChild ident rest (Suc i) idx = int (Suc i + j)"
         "id' (attrs (rest ! j)) = ident" by blast
    with False show ?thesis by (intro exI [of _ "Suc j"]) simp
  qed
qed

lemma distinct_without_nth:
  assumes "distinct (map f xs)" and "j < length xs"
  shows "f (xs ! j) \<notin> set (map f (take j xs @ drop (Suc j) xs))"
proof -
  have "map f xs = map f (take j xs) @ f (xs ! j) # map f (drop (Suc j) xs)"
    using assms(2) by (metis id_take_nth_drop list.simps(9) map_append)
  with assms(1) have "distinct (map f (take j xs) @ f (xs ! j) # map f (drop (Suc j) xs))"
    by simp
  then show ?thesis by auto
qed

text \<open>
  Claim C10. When a node with an owner is detached with success, the owner's child
  sequence loses the child with the node's id, and the node keeps its back-reference to
  that owner. A second \<open>detach\<close> of the node therefore reaches the same owner, finds no
  child with the node's id (ids are unique among the children) and fails with an
  AssertionError.
\<close>

theorem detach_leaves_group:
  assumes node: "s r = Some this"
      and owner: "group (attrs this) = Some parent"
      and composite: "s parent = Some (LayerGroup a ls)"
      and ok: "detach s r = Inr s'"
      and ids: "distinct (map (\<lambda>l. id' (attrs l)) ls)"
  shows "(\<exists>i<length ls. id' (attrs (ls ! i)) = id' (attrs this)
            \<and> s' parent = Some (LayerGroup a (take i ls @ drop (Suc i) ls)))
       \<and> (\<exists>this'. s' r = Some this' \<and> group (attrs this') = Some parent
            \<and> id' (attrs this') = id' (attrs this))
       \<and> detach s' r = Inl AssertionError"
proof -
  let ?ident = "id' (attrs this)"
  let ?idx = "someChild ?ident ls 0 (- 1)"
  have found: "?idx > - 1"
    using ok node owner composite by (simp add: detach_def Let_def split: if_splits)
  have s': "s' = s(parent \<mapsto> LayerGroup a (take (nat ?idx) ls @ drop (Suc (nat ?idx)) ls))"
    using ok node owner composite found by (simp add: detach_def Let_def)
  have "?ident \<in> set (map (\<lambda>l. id' (attrs l)) ls)"
    using found someChild_absent [of ?ident ls 0 "- 1"] by fastforce
  from someChild_present [OF this, of 0 "- 1"] obtain j where
    j: "j < length ls" "?idx = int j" "id' (attrs (ls ! j)) = ?ident" by auto
  let ?ls' = "take j ls @ drop (Suc j) ls"
  have upd: "s' = s(parent \<mapsto> LayerGroup a ?ls')" using s' j(2) by simp
  have first: "\<exists>i<length ls. id' (attrs (ls ! i)) = ?ident
            \<and> s' parent = Some (LayerGroup a (take i ls @ drop (Suc i) ls))"
    using j upd by (intro exI [of _ j]) simp
  have this': "\<exists>this'. s' r = Some this' \<and> group (attrs this') = Some parent
            \<and> id' (attrs this') = id' (attrs this)"
  proof (cases "r = parent")
    case True
    with node composite have "this = LayerGroup a ls" by simp
    with owner True upd show ?thesis by simp
  next
    case False
    with upd node owner show ?thesis by simp
  qed
  then obtain this' where t: "s' r = Some this'" "group (attrs this') = Some parent"
    "id' (attrs this') = ?ident" by blast
  have gone: "?ident \<notin> set (map (\<lambda>l. id' (attrs l)) ?ls')"
    using distinct_without_nth [OF ids j(1)] j(3) by simp
  have "someChild ?ident ?ls' 0 (- 1) = - 1"
    using gone by (rule someChild_absent)
  then have "detach s' r = Inl AssertionError"
    using t upd by (simp add: detach_def Let_def)
  with first this' show ?thesis by blast
qed

theorem detach_leaves_group_witness:
  "detach snapshotStore ''A'' = Inr (snapshotStore(''root'' \<mapsto> LayerGroup rootAttrs [nodeG]))
   \<and> map_option (\<lambda>l. group (attrs l))
        ((snapshotStore(''root'' \<mapsto> LayerGroup rootAttrs [nodeG])) ''A'') = Some (Some ''root'')
   \<and> detach (snapshotStore(''root'' \<mapsto> LayerGroup rootAttrs [nodeG])) ''A''
        = Inl AssertionError"
proof -
  have node: "snapshotStore ''A'' = Some nodeA"
    by (simp add: snapshotStore_def)
  have owner: "group (attrs nodeA) = Some ''root''"
    by (simp add: nodeA_def)
  have composite: "snapshotStore ''root'' = Some (LayerGroup rootAttrs [nodeA, nodeG])"
    by (simp add: snapshotStore_def snapshotRoot_def)
  have ok: "detach snapshotStore ''A''
      = Inr (snapshotStore(''root'' \<mapsto> LayerGroup rootAttrs [nodeG]))"
    by (simp add: detach_def snapshotStore_def snapshotRoot_def nodeA_def nodeG_def)
  have ids: "distinct (map (\<lambda>l. id' (attrs l)) [nodeA, nodeG])"
    by (simp add: nodeA_def nodeG_def)
  from detach_leaves_group [OF node owner composite ok ids] ok node owner
  show ?thesis by (simp add: snapshotStore_def)
qed

section \<open>Appending a node\<close>

lemma scanLayers_to_end:
  "t = cur + sum_list (map getSize rest) \<Longrightarrow>
   scanLayers rest idx n t cur cur = Inr (Exited (idx + length rest) t)"
proof (induction rest arbitrary: idx cur)
  case Nil
  then show ?case by simp
next
  case (Cons child rest)
  have c: "1 \<le> getSize child" by (rule getSize_pos)
  have r: "0 \<le> sum_list (map getSize rest)" by (rule sum_getSize_nonneg)
  from Cons.prems have t: "t = (cur + getSize child) + sum_list (map getSize rest)" by simp
  from Cons.IH [OF t, of "Suc idx"] c r t show ?case by (simp add: Let_def)
qed

text \<open>
  Claim C6, as the specification states it, fails: the leaf C cannot be added to the
  snapshot root (of size 6) at the index 6 - 1 = 5; the scan ends with the running index
  4 and the assertion fails.
\<close>

theorem addLayerAtIndex_size_minus_one_fails:
  "getSize snapshotRoot = 6
   \<and> addLayerAtIndex snapshotRoot nodeC (getSize snapshotRoot - 1) = Inl AssertionError"
  by (simp add: snapshotRoot_def nodeA_def nodeG_def nodeB_def nodeC_def Let_def)

text \<open>
  Claim C6, amended. The positions in the frame of a composite count the slots of its
  children only, and the index of a node is the last slot it takes. So the index that
  appends \<open>n\<close> to \<open>g\<close> is the sum of the children's sizes, \<open>getSize g - 2\<close>, plus
  \<open>getSize n - 1\<close>; for a leaf that is \<open>getSize g - 2\<close>. At this index the call succeeds,
  \<open>n\<close> (with its back-reference set to \<open>g\<close>) is the last child of \<open>g\<close>, and the other
  children are as before.
\<close>

theorem addLayerAtIndex_appends:
  "addLayerAtIndex (LayerGroup a ls) n (getSize (LayerGroup a ls) - 2 + (getSize n - 1))
   = Inr (LayerGroup a (ls @ [mapAttrs (\<lambda>b. b\<lparr>group := Some (id' a)\<rparr>) n]),
          mapAttrs (\<lambda>b. b\<lparr>group := Some (id' a)\<rparr>) n)"
proof -
  let ?t = "getSize (LayerGroup a ls) - 2 + (getSize n - 1)"
  have "?t = (getSize n - 1) + sum_list (map getSize ls)" by (simp add: fold_getSize)
  from scanLayers_to_end [OF this, of 0 n]
  show ?thesis by (simp add: Let_def)
qed

section \<open>The scenario of the added leaf\<close>

lemma createLayer_snapshot: "createLayer None snapshotRaw = Inr snapshotRoot"
  by (simp add: createLayer.simps snapshotRaw_def snapshotRoot_def rawRecord_def sortByIndex_def
        compareIndex_def leafClassFor_def BaseLayer_def nodeA_def nodeB_def nodeG_def
        rootAttrs_def Let_def)

text \<open>
  Claim C7, as the specification states it, fails. The record
  \<^verbatim>\<open>{id:"C", index:5, added:true}\<close> has no type, and \<open>createLayer\<close> refuses it. With the
  type of a leaf, "layer", and the id registered by the caller, the index 5 does not fit
  the tree: the children of the root take the slots 0 to 3, the scan ends with the
  running index 4, and the assertion of \<open>addLayerAtIndex\<close> fails.
\<close>

theorem applyChange_added_leaf_at_5_fails:
  "LayerGroup_applyChange snapshotRoot registeredC [addedC 5 None] None = Inl UnknownLayerType
   \<and> LayerGroup_applyChange snapshotRoot registeredC [addedC 5 (Some ''layer'')] None
       = Inl AssertionError"
  by (simp add: snapshotRoot_def sortByIndex_def materializeChild_def rootAttrs_def
        createLayer.simps leafClassFor_def BaseLayer_def Let_def registeredC_def
        addedC_def rawRecord_def nodeA_def nodeG_def nodeB_def)

text \<open>
  Claim C7, amended. With the record \<^verbatim>\<open>{id:"C", type:"layer", index:4, added:true}\<close> and
  the id registered in \<^verbatim>\<open>changedLayers\<close>, the change applies at the root of the snapshot
  tree, of size 6: the size of the root becomes 7 and C is the last child of the root,
  in the slot after the closing marker of G.
\<close>

theorem applyChange_added_leaf_at_4:
  "LayerGroup_applyChange snapshotRoot registeredC [addedC 4 (Some ''layer'')] None
     = Inr (LayerGroup rootAttrs [nodeA, nodeG, nodeC],
            [''C'' \<mapsto> \<lparr>layer = Some nodeC, previousGroup = Some (Some ''root'')\<rparr>])
   \<and> getSize snapshotRoot = 6
   \<and> getSize (LayerGroup rootAttrs [nodeA, nodeG, nodeC]) = 7
   \<and> inner (LayerGroup rootAttrs [nodeA, nodeG, nodeC])
       = [LeafSlot ''A'', OpenMarker ''G'', LeafSlot ''B'', CloseMarker ''G'', LeafSlot ''C'']"
  by (simp add: snapshotRoot_def sortByIndex_def materializeChild_def rootAttrs_def
        createLayer.simps leafClassFor_def BaseLayer_def Let_def registeredC_def inner_def
        addedC_def rawRecord_def nodeA_def nodeG_def nodeB_def nodeC_def)

section \<open>Lookup by id\<close>

text \<open>
  The slots of a node are as many as its size.
\<close>

lemma length_flat:
  "(\<And>l. l \<in> set ls \<Longrightarrow> int (length (flatten l)) = getSize l) \<Longrightarrow>
   int (length (concat (map flatten ls))) = sum_list (map getSize ls)"
  by (induction ls) simp_all

lemma length_flatten: "int (length (flatten l)) = getSize l"
proof (induction l)
  case (Leaf c a)
  show ?case by simp
next
  case (LayerGroup a ls)
  from length_flat [of ls] LayerGroup
  have "int (length (concat (map flatten ls))) = sum_list (map getSize ls)" by blast
  then show ?case by (simp add: fold_getSize)
qed

lemma length_flat_eq: "int (length (concat (map flatten ls))) = sum_list (map getSize ls)"
  by (rule length_flat) (rule length_flatten)

lemma length_inner: "int (length (inner (LayerGroup a ls))) = getSize (LayerGroup a ls) - 2"
  by (simp add: inner_def length_flat_eq fold_getSize)

lemma firstIndex_None_iff: "firstIndex P xs = None \<longleftrightarrow> (\<forall>x\<in>set xs. \<not> P x)"
  by (induction xs) auto

lemma firstIndex_append_Some:
  "firstIndex P xs = Some i \<Longrightarrow> firstIndex P (xs @ ys) = Some i"
  by (induction xs arbitrary: i) (auto split: if_splits)

lemma firstIndex_append_None:
  "firstIndex P xs = None \<Longrightarrow> firstIndex P ys = None \<Longrightarrow> firstIndex P (xs @ ys) = None"
  by (auto simp: firstIndex_None_iff)

lemma firstIndex_append_later:
  "firstIndex P xs = None \<Longrightarrow> firstIndex P ys = Some j \<Longrightarrow>
   firstIndex P (xs @ ys) = Some (length xs + j)"
  by (induction xs) (auto split: if_splits)

lemma closes_simps [simp]:
  "closes ident (LeafSlot i) = (i = ident)"
  "closes ident (CloseMarker i) = (i = ident)"
  "closes ident (OpenMarker i) = False"
  by (auto simp: closes_def)

lemma firstIndex_cong:
  "(\<And>x. x \<in> set xs \<Longrightarrow> P x = Q x) \<Longrightarrow> firstIndex P xs = firstIndex Q xs"
  by (induction xs) auto

lemma find_index:
  "isLayerGroup g \<Longrightarrow>
     \<exists>r. findLayer g ident = Inr r
       \<and> map_option snd r = map_option int (firstIndex (closes ident) (inner g))"
  "\<exists>r. findIn ls ident cur = Inr r
       \<and> map_option snd r
          = map_option (\<lambda>p. cur + int p) (firstIndex (closes ident) (concat (map flatten ls)))"
proof (induction g ident and ls ident cur rule: findLayer_findIn.induct)
  case (1 c a ident)
  then show ?case by simp
next
  case (2 a ls ident)
  then show ?case by (simp add: inner_def)
next
  case (3 ident cur)
  show ?case by simp
next
  case (4 child rest ident cur)
  let ?rest = "concat (map flatten rest)"
  let ?P = "closes ident"
  show ?case
  proof (cases child)
    case (Leaf c b)
    show ?thesis
    proof (cases "id' b = ident")
      case True
      with Leaf show ?thesis by simp
    next
      case False
      with Leaf 4(3) obtain r where
        r: "findIn rest ident (cur + 1) = Inr r"
           "map_option snd r = map_option (\<lambda>p. cur + 1 + int p) (firstIndex ?P ?rest)"
        by auto
      show ?thesis
      proof (cases "firstIndex ?P ?rest")
        case None
        with Leaf False r show ?thesis by simp
      next
        case (Some j)
        with Leaf False r show ?thesis by (auto simp: add.assoc)
      qed
    qed
  next
    case (LayerGroup b cs)
    let ?cs = "concat (map flatten cs)"
    have len: "int (length ?cs) = getSize child - 2"
      using LayerGroup length_inner [of b cs] by (simp add: inner_def)
    have flat: "concat (map flatten (child # rest))
        = (OpenMarker (id' b) # ?cs) @ (CloseMarker (id' b) # ?rest)"
      using LayerGroup by simp
    from LayerGroup 4(1) obtain r0 where
      r0: "findLayer child ident = Inr r0"
          "map_option snd r0 = map_option int (firstIndex ?P ?cs)"
      by (auto simp: inner_def)
    show ?thesis
    proof (cases r0)
      case (Some li)
      obtain l i where li: "li = (l, i)" by (cases li)
      with Some r0 obtain q where q: "firstIndex ?P ?cs = Some q" "i = int q"
        by (cases "firstIndex ?P ?cs") auto
      then have "firstIndex ?P (OpenMarker (id' b) # ?cs) = Some (Suc q)" by simp
      then have "firstIndex ?P (concat (map flatten (child # rest))) = Some (Suc q)"
        unfolding flat by (rule firstIndex_append_Some)
      with LayerGroup r0 Some li q show ?thesis by simp
    next
      case None
      with r0 have "firstIndex ?P ?cs = None" by simp
      then have none: "firstIndex ?P (OpenMarker (id' b) # ?cs) = None" by simp
      show ?thesis
      proof (cases "id' b = ident")
        case True
        then have "firstIndex ?P (CloseMarker (id' b) # ?rest) = Some 0" by simp
        from firstIndex_append_later [OF none this]
        have "firstIndex ?P (concat (map flatten (child # rest))) = Some (Suc (length ?cs))"
          unfolding flat by simp
        with LayerGroup r0 None True len show ?thesis by (simp add: Let_def)
      next
        case False
        from 4(2) [OF _ refl r0(1) [unfolded None] refl] LayerGroup False
        obtain r where
          r: "findIn rest ident (cur + 1 + (getSize child - 2) + 1) = Inr r"
             "map_option snd r
                = map_option (\<lambda>p. cur + 1 + (getSize child - 2) + 1 + int p)
                    (firstIndex ?P ?rest)"
          by auto
        have run: "findIn (child # rest) ident cur = Inr r"
          using LayerGroup r0 None False r(1) by (simp add: Let_def)
        show ?thesis
        proof (cases "firstIndex ?P ?rest")
          case None
          with False have "firstIndex ?P (CloseMarker (id' b) # ?rest) = None" by simp
          from firstIndex_append_None [OF none this]
          have "firstIndex ?P (concat (map flatten (child # rest))) = None"
            unfolding flat .
          with run r(2) \<open>firstIndex ?P ?rest = None\<close> show ?thesis by simp
        next
          case (Some j)
          with False have "firstIndex ?P (CloseMarker (id' b) # ?rest) = Some (Suc j)" by simp
          from firstIndex_append_later [OF none this]
          have "firstIndex ?P (concat (map flatten (child # rest)))
              = Some (Suc (length ?cs) + Suc j)"
            unfolding flat by simp
          with run r(2) Some len show ?thesis by (auto simp: algebra_simps)
        qed
      qed
    qed
  qed
qed


lemma find_node:
  "isLayerGroup g \<Longrightarrow> findLayer g ident = Inr (Some (l, p)) \<Longrightarrow>
     l \<in> set (descendants g) \<and> idOf l = ident"
  "findIn ls ident cur = Inr (Some (l, p)) \<Longrightarrow>
     l \<in> set (concat (map subtree ls)) \<and> idOf l = ident"
proof (induction g ident and ls ident cur arbitrary: p and p rule: findLayer_findIn.induct)
  case (1 c a ident)
  then show ?case by simp
next
  case (2 a ls ident)
  then show ?case by (simp add: descendants_def)
next
  case (3 ident cur)
  then show ?case by simp
next
  case (4 child rest ident cur)
  show ?case
  proof (cases child)
    case (Leaf c b)
    with 4(3) [of p] 4(4) show ?thesis by (auto split: if_splits)
  next
    case (LayerGroup b cs)
    with 4(4) obtain r0 where r0: "findLayer child ident = Inr r0"
      by (cases "findLayer child ident") (auto simp: Let_def)
    show ?thesis
    proof (cases r0)
      case (Some li)
      obtain l0 i where li: "li = (l0, i)" by (cases li)
      with 4(4) LayerGroup r0 Some have "l0 = l" by (simp add: Let_def)
      with 4(1) [OF _ refl, of i] LayerGroup r0 Some li
      have "l \<in> set (descendants child) \<and> idOf l = ident" by simp
      with LayerGroup show ?thesis by (auto simp: descendants_def)
    next
      case None
      show ?thesis
      proof (cases "id' b = ident")
        case True
        with 4(4) LayerGroup r0 None have "l = LayerGroup b cs" by (simp add: Let_def)
        with LayerGroup True show ?thesis by simp
      next
        case False
        with 4(4) LayerGroup r0 None
        have "findIn rest ident (cur + 1 + (getSize child - 2) + 1) = Inr (Some (l, p))"
          by (simp add: Let_def)
        from 4(2) [OF _ refl r0 [unfolded None] refl refl _ this] LayerGroup False
        show ?thesis by auto
      qed
    qed
  qed
qed

lemma closes_in_flatten:
  "s \<in> set (flatten l) \<Longrightarrow> closes ident s \<Longrightarrow>
   \<exists>m\<in>set (subtree l). idOf m = ident \<and> s = closingSlot m"
proof (induction l)
  case (Leaf c a)
  then show ?case by (auto simp: closingSlot_def)
next
  case (LayerGroup a ls)
  from LayerGroup.prems consider
      (inside) k where "k \<in> set ls" "s \<in> set (flatten k)"
    | (marker) "s = CloseMarker (id' a)"
    by auto
  then show ?case
  proof cases
    case inside
    from LayerGroup.IH [OF inside LayerGroup.prems(2)] inside(1) show ?thesis by auto
  next
    case marker
    with LayerGroup.prems(2) show ?thesis by (auto simp: closingSlot_def)
  qed
qed

lemma closingSlot_in_flatten: "m \<in> set (subtree l) \<Longrightarrow> closingSlot m \<in> set (flatten l)"
proof (induction l)
  case (Leaf c a)
  then show ?case by (auto simp: closingSlot_def)
next
  case (LayerGroup a ls)
  from LayerGroup.prems consider
      (self) "m = LayerGroup a ls"
    | (below) k where "k \<in> set ls" "m \<in> set (subtree k)"
    by auto
  then show ?case
  proof cases
    case self
    then show ?thesis by (simp add: closingSlot_def)
  next
    case below
    from LayerGroup.IH [OF below] below(1) show ?thesis by auto
  qed
qed

lemma closes_closingSlot: "closes (idOf m) (closingSlot m)"
  by (simp add: closingSlot_def)

lemma closes_inner:
  "s \<in> set (inner g) \<Longrightarrow> closes ident s \<Longrightarrow>
   \<exists>m\<in>set (descendants g). idOf m = ident \<and> s = closingSlot m"
  using closes_in_flatten by (fastforce simp: inner_def descendants_def)

lemma closingSlot_inner: "m \<in> set (descendants g) \<Longrightarrow> closingSlot m \<in> set (inner g)"
  using closingSlot_in_flatten by (fastforce simp: inner_def descendants_def)

text \<open>
  Claim C2, as the specification states it, fails for a composite node: in the snapshot
  tree root[A, G[B]] the opening marker of G is in slot 1 of the root's frame, and
  \<open>findLayer\<close> returns the index 3 for G, the slot of its closing marker.
\<close>

theorem findLayer_group_counterexample:
  "findLayer snapshotRoot ''G'' = Inr (Some (nodeG, 3))
   \<and> flattenedPosition snapshotRoot nodeG = Some 1"
  by (simp add: snapshotRoot_def nodeA_def nodeG_def nodeB_def flattenedPosition_def
        indexOf_def inner_def openingSlot_def Let_def)

text \<open>
  Claim C2, amended. In a composite \<open>g\<close> whose descendants have ids of their own,
  \<open>findLayer\<close> with the id of a descendant \<open>n\<close> returns \<open>n\<close> and the position in the
  frame of \<open>g\<close> of the last slot of \<open>n\<close>: the slot of \<open>n\<close> when \<open>n\<close> is a leaf, which is
  its flattened position, and the slot of the closing marker when \<open>n\<close> is a composite.
  With an id that no descendant has, \<open>findLayer\<close> returns nothing. In the snapshot tree,
  \<open>findLayer\<close> with "B" returns the index 2.
\<close>

theorem findLayer_last_slot:
  assumes composite: "isLayerGroup g"
      and ids: "distinct (map idOf (descendants g))"
  shows "(\<forall>n\<in>set (descendants g).
            \<exists>p. lastSlotPosition g n = Some p
               \<and> findLayer g (idOf n) = Inr (Some (n, int p))
               \<and> (\<not> isLayerGroup n \<longrightarrow> flattenedPosition g n = Some p))
       \<and> (\<forall>ident. ident \<notin> set (map idOf (descendants g)) \<longrightarrow> findLayer g ident = Inr None)"
proof (intro conjI ballI allI impI)
  fix n
  assume n: "n \<in> set (descendants g)"
  let ?ident = "idOf n"
  have same: "closes ?ident s = (s = closingSlot n)" if "s \<in> set (inner g)" for s
  proof
    assume "closes ?ident s"
    from closes_inner [OF that this] obtain m where
      m: "m \<in> set (descendants g)" "idOf m = ?ident" "s = closingSlot m" by blast
    from ids have "inj_on idOf (set (descendants g))" by (simp add: distinct_map)
    with m(1,2) n have "m = n" by (auto dest: inj_onD)
    with m(3) show "s = closingSlot n" by simp
  next
    assume "s = closingSlot n"
    then show "closes ?ident s" by (simp add: closes_closingSlot)
  qed
  then have eq: "firstIndex (closes ?ident) (inner g) = lastSlotPosition g n"
    unfolding lastSlotPosition_def indexOf_def by (intro firstIndex_cong) simp
  have "closingSlot n \<in> set (inner g)" using n by (rule closingSlot_inner)
  then have "lastSlotPosition g n \<noteq> None"
    by (auto simp: lastSlotPosition_def indexOf_def firstIndex_None_iff)
  then obtain p where p: "lastSlotPosition g n = Some p" by blast
  from find_index(1) [OF composite, of ?ident] eq p obtain r where
    r: "findLayer g ?ident = Inr r" "map_option snd r = Some (int p)" by auto
  then obtain l where l: "r = Some (l, int p)" by (cases r) auto
  from find_node(1) [OF composite r(1) [unfolded l]]
  have "l \<in> set (descendants g)" "idOf l = ?ident" by simp_all
  moreover from ids have "inj_on idOf (set (descendants g))" by (simp add: distinct_map)
  ultimately have "l = n" using n by (auto dest: inj_onD)
  with r(1) l have found: "findLayer g ?ident = Inr (Some (n, int p))" by simp
  have leaf: "\<not> isLayerGroup n \<longrightarrow> flattenedPosition g n = Some p"
    using p by (auto simp: flattenedPosition_def lastSlotPosition_def openingSlot_def
        closingSlot_def)
  from p found leaf
  show "\<exists>p. lastSlotPosition g n = Some p
           \<and> findLayer g ?ident = Inr (Some (n, int p))
           \<and> (\<not> isLayerGroup n \<longrightarrow> flattenedPosition g n = Some p)"
    by blast
next
  fix ident
  assume absent: "ident \<notin> set (map idOf (descendants g))"
  have "firstIndex (closes ident) (inner g) = None"
    unfolding firstIndex_None_iff
  proof
    fix s
    assume "s \<in> set (inner g)"
    show "\<not> closes ident s"
    proof
      assume "closes ident s"
      from closes_inner [OF \<open>s \<in> set (inner g)\<close> this] absent show False by auto
    qed
  qed
  with find_index(1) [OF composite, of ident] show "findLayer g ident = Inr None" by auto
qed

theorem findLayer_last_slot_witness:
  "findLayer snapshotRoot ''B'' = Inr (Some (nodeB, 2))
   \<and> flattenedPosition snapshotRoot nodeB = Some 2
   \<and> findLayer snapshotRoot ''G'' = Inr (Some (nodeG, 3))
   \<and> lastSlotPosition snapshotRoot nodeG = Some 3
   \<and> findLayer snapshotRoot ''Z'' = Inr None"
proof -
  have composite: "isLayerGroup snapshotRoot" by (simp add: snapshotRoot_def)
  have nodes: "descendants snapshotRoot = [nodeA, nodeG, nodeB]"
    by (simp add: descendants_def snapshotRoot_def nodeA_def nodeG_def nodeB_def)
  have ids: "distinct (map idOf (descendants snapshotRoot))"
    by (simp add: nodes nodeA_def nodeG_def nodeB_def)
  note found = findLayer_last_slot [OF composite ids]
  have b: "lastSlotPosition snapshotRoot nodeB = Some 2"
   and g: "lastSlotPosition snapshotRoot nodeG = Some 3"
    by (simp_all add: lastSlotPosition_def indexOf_def inner_def closingSlot_def
        snapshotRoot_def nodeA_def nodeG_def nodeB_def)
  from found b have "findLayer snapshotRoot (idOf nodeB) = Inr (Some (nodeB, 2))
      \<and> flattenedPosition snapshotRoot nodeB = Some 2"
    by (auto simp: nodes nodeB_def)
  moreover from found g have "findLayer snapshotRoot (idOf nodeG) = Inr (Some (nodeG, 3))"
    by (auto simp: nodes)
  moreover from found have "findLayer snapshotRoot ''Z'' = Inr None"
    by (simp add: nodes nodeA_def nodeG_def nodeB_def)
  ultimately show ?thesis using g by (simp add: nodeB_def nodeG_def)
qed

section \<open>Inserting at a target index\<close>

text \<open>
  How the scan of the children can end: by leaving the loop after \<open>j\<close> children, with the
  running index advanced by their sizes; by recursing into the child \<open>j\<close>, a composite
  whose span the target index falls in; or with the failure of that recursive call.
\<close>

lemma scanLayers_Exited:
  "scanLayers rest idx n t cur cur = Inr (Exited idx' cur') \<Longrightarrow>
   \<exists>j\<le>length rest. idx' = idx + j \<and> cur' = cur + sum_list (map getSize (take j rest))"
proof (induction rest arbitrary: idx cur)
  case Nil
  then show ?case by simp
next
  case (Cons child rest)
  show ?case
  proof (cases "t \<le> cur")
    case True
    with Cons.prems show ?thesis by (intro exI [of _ 0]) simp
  next
    case False
    with Cons.prems have
      "scanLayers rest (Suc idx) n t (cur + getSize child) (cur + getSize child)
         = Inr (Exited idx' cur')"
      by (auto simp: Let_def split: if_splits sum.splits prod.splits)
    from Cons.IH [OF this] obtain j where
      "j \<le> length rest" "idx' = Suc idx + j"
      "cur' = cur + getSize child + sum_list (map getSize (take j rest))" by blast
    then show ?thesis by (intro exI [of _ "Suc j"]) simp
  qed
qed

lemma scanLayers_Returned:
  "scanLayers rest idx n t cur cur = Inr (Returned idx' child' n') \<Longrightarrow>
   \<exists>j<length rest. idx' = idx + j \<and> isLayerGroup (rest ! j)
      \<and> cur + sum_list (map getSize (take j rest)) < t
      \<and> t < cur + sum_list (map getSize (take j rest)) + getSize (rest ! j)
      \<and> addLayerAtIndex (rest ! j) n (t - (cur + sum_list (map getSize (take j rest)) + 1))
          = Inr (child', n')"
proof (induction rest arbitrary: idx cur)
  case Nil
  then show ?case by simp
next
  case (Cons child rest)
  from Cons.prems have above: "\<not> t \<le> cur" by (auto split: if_splits)
  show ?case
  proof (cases "t < cur + getSize child \<and> isLayerGroup child")
    case True
    with Cons.prems above
    have "idx' = idx \<and> addLayerAtIndex child n (t - (cur + 1)) = Inr (child', n')"
      by (auto simp: Let_def split: sum.splits prod.splits)
    with True above show ?thesis by (intro exI [of _ 0]) simp
  next
    case False
    with Cons.prems above have
      "scanLayers rest (Suc idx) n t (cur + getSize child) (cur + getSize child)
         = Inr (Returned idx' child' n')"
      by (auto simp: Let_def)
    from Cons.IH [OF this] obtain j where
      "j < length rest" "idx' = Suc idx + j" "isLayerGroup (rest ! j)"
      "cur + getSize child + sum_list (map getSize (take j rest)) < t"
      "t < cur + getSize child + sum_list (map getSize (take j rest)) + getSize (rest ! j)"
      "addLayerAtIndex (rest ! j) n
         (t - (cur + getSize child + sum_list (map getSize (take j rest)) + 1))
       = Inr (child', n')" by blast
    then show ?thesis by (intro exI [of _ "Suc j"]) (simp add: add.assoc)
  qed
qed

lemma scanLayers_Inl:
  "scanLayers rest idx n t cur cur = Inl e \<Longrightarrow>
   \<exists>j<length rest. isLayerGroup (rest ! j) \<and> (\<exists>t'. addLayerAtIndex (rest ! j) n t' = Inl e)"
proof (induction rest arbitrary: idx cur)
  case Nil
  then show ?case by simp
next
  case (Cons child rest)
  from Cons.prems have above: "\<not> t \<le> cur" by (auto split: if_splits)
  show ?case
  proof (cases "t < cur + getSize child \<and> isLayerGroup child")
    case True
    with Cons.prems above
    have "addLayerAtIndex child n (t - (cur + 1)) = Inl e"
      by (auto simp: Let_def split: sum.splits prod.splits)
    with True show ?thesis by (intro exI [of _ 0]) auto
  next
    case False
    with Cons.prems above have
      "scanLayers rest (Suc idx) n t (cur + getSize child) (cur + getSize child) = Inl e"
      by (auto simp: Let_def)
    from Cons.IH [OF this] obtain j where
      "j < length rest" "isLayerGroup (rest ! j)" "\<exists>t'. addLayerAtIndex (rest ! j) n t' = Inl e"
      by blast
    then show ?thesis by (intro exI [of _ "Suc j"]) simp
  qed
qed

lemma addLayerAtIndex_error:
  "isLayerGroup g \<Longrightarrow> addLayerAtIndex g n t = Inl e \<Longrightarrow> e = AssertionError"
proof (induction g arbitrary: t)
  case (Leaf c a)
  then show ?case by simp
next
  case (LayerGroup a ls)
  let ?c = "getSize n - 1"
  show ?case
  proof (cases "scanLayers ls 0 n t ?c ?c")
    case (Inl e')
    with LayerGroup.prems have "e' = e" by simp
    from scanLayers_Inl [OF Inl [unfolded this]] obtain j t' where
      "j < length ls" "isLayerGroup (ls ! j)" "addLayerAtIndex (ls ! j) n t' = Inl e" by blast
    with LayerGroup.IH [of "ls ! j" t'] show ?thesis by simp
  next
    case (Inr out)
    with LayerGroup.prems show ?thesis
      by (cases out) (auto simp: Let_def split: if_splits)
  qed
qed


lemma setGroup_simps [simp]:
  "flatten (mapAttrs (\<lambda>b. b\<lparr>group := x\<rparr>) n) = flatten n"
  "closingSlot (mapAttrs (\<lambda>b. b\<lparr>group := x\<rparr>) n) = closingSlot n"
  "getSize (mapAttrs (\<lambda>b. b\<lparr>group := x\<rparr>) n) = getSize n"
  "group (attrs (mapAttrs (\<lambda>b. b\<lparr>group := x\<rparr>) n)) = x"
  by (cases n; simp add: closingSlot_def)+

lemma addLayerAtIndex_shape:
  "addLayerAtIndex g n t = Inr (g', n') \<Longrightarrow>
   \<exists>a ls ls'. g = LayerGroup a ls \<and> g' = LayerGroup a ls'"
  by (cases g) (auto simp: Let_def split: sum.splits outcome.splits if_splits)

lemma flat_split:
  "concat (map flatten ls)
     = concat (map flatten (take j ls)) @ concat (map flatten (drop j ls))"
  by (metis append_take_drop_id concat_append map_append)

lemma flat_nth:
  "j < length ls \<Longrightarrow>
   concat (map flatten ls)
     = concat (map flatten (take j ls)) @ flatten (ls ! j)
         @ concat (map flatten (drop (Suc j) ls))"
  by (subst id_take_nth_drop [of j ls]) simp_all

lemma flat_update:
  "j < length ls \<Longrightarrow>
   concat (map flatten (ls[j := x]))
     = concat (map flatten (take j ls)) @ flatten x
         @ concat (map flatten (drop (Suc j) ls))"
  by (simp add: upd_conv_take_nth_drop)

lemma direct_insert:
  assumes "scanLayers ls 0 n t c c = Inr (Exited idx t)"
  shows "\<exists>p. int p = t - c \<and> p \<le> length (concat (map flatten ls))
           \<and> idx \<le> length ls
           \<and> concat (map flatten (take idx ls @ n' # drop idx ls))
               = take p (concat (map flatten ls)) @ flatten n'
                   @ drop p (concat (map flatten ls))"
proof -
  from scanLayers_Exited [OF assms] have
    j: "idx \<le> length ls" "t = c + sum_list (map getSize (take idx ls))" by auto
  define X where "X = concat (map flatten (take idx ls))"
  define Y where "Y = concat (map flatten (drop idx ls))"
  have whole: "concat (map flatten ls) = X @ Y"
    unfolding X_def Y_def by (rule flat_split)
  have "int (length X) = t - c" using j(2) by (simp add: X_def length_flat_eq)
  moreover have "length X \<le> length (concat (map flatten ls))"
    by (simp add: whole)
  moreover have "concat (map flatten (take idx ls @ n' # drop idx ls))
      = take (length X) (concat (map flatten ls)) @ flatten n'
          @ drop (length X) (concat (map flatten ls))"
    by (simp add: whole) (simp add: X_def Y_def)
  ultimately show ?thesis using j(1) by blast
qed

lemma leaf_insert:
  "addLayerAtIndex g n t = Inr (g', n') \<Longrightarrow> getSize n = 1 \<Longrightarrow>
   \<exists>p. int p = t \<and> p \<le> length (inner g)
      \<and> inner g' = take p (inner g) @ flatten n @ drop p (inner g)"
proof (induction g arbitrary: t g')
  case (Leaf c a)
  then show ?case by simp
next
  case (LayerGroup a ls)
  let ?flat = "\<lambda>xs. concat (map flatten xs)"
  from LayerGroup.prems(2) have c: "getSize n - 1 = 0" by simp
  show ?case
  proof (cases "scanLayers ls 0 n t 0 0")
    case (Inl e)
    with LayerGroup.prems c show ?thesis by simp
  next
    case (Inr out)
    show ?thesis
    proof (cases out)
      case (Exited idx cur)
      with Inr LayerGroup.prems c have t: "cur = t"
        and g': "g' = LayerGroup a (take idx ls @ n' # drop idx ls)"
        and n': "n' = mapAttrs (\<lambda>b. b\<lparr>group := Some (id' a)\<rparr>) n"
        by (auto simp: Let_def split: if_splits)
      from direct_insert [OF Inr [unfolded Exited t], of n'] g' n'
      show ?thesis by (auto simp: inner_def)
    next
      case (Returned idx child' n'')
      with Inr LayerGroup.prems c have g': "g' = LayerGroup a (ls[idx := child'])"
        and "n'' = n'" by auto
      let ?S = "sum_list (map getSize (take idx ls))"
      from scanLayers_Returned [OF Inr [unfolded Returned]] \<open>n'' = n'\<close>
      have j: "idx < length ls" "?S < t"
        and rec: "addLayerAtIndex (ls ! idx) n (t - (?S + 1)) = Inr (child', n')"
        by auto
      from LayerGroup.IH [OF _ rec LayerGroup.prems(2)] j(1)
      obtain q where q: "int q = t - (?S + 1)" "q \<le> length (inner (ls ! idx))"
        "inner child' = take q (inner (ls ! idx)) @ flatten n @ drop q (inner (ls ! idx))"
        by auto
      from addLayerAtIndex_shape [OF rec] obtain b cs cs' where
        sh: "ls ! idx = LayerGroup b cs" "child' = LayerGroup b cs'" by blast
      let ?X = "?flat (take idx ls)"
      let ?Z = "?flat (drop (Suc idx) ls)"
      let ?p = "length ?X + Suc q"
      have "int ?p = t" using q(1) by (simp add: length_flat_eq)
      moreover have old: "inner (LayerGroup a ls)
          = ?X @ (OpenMarker (id' b) # inner (ls ! idx) @ [CloseMarker (id' b)]) @ ?Z"
        using flat_nth [OF j(1)] sh(1) by (simp add: inner_def)
      moreover have new: "inner g'
          = ?X @ (OpenMarker (id' b) # inner child' @ [CloseMarker (id' b)]) @ ?Z"
        using flat_update [OF j(1), of child'] sh(2) g' by (simp add: inner_def)
      moreover have "?p \<le> length (inner (LayerGroup a ls))"
        unfolding old using q(2) by simp
      moreover have "inner g' = take ?p (inner (LayerGroup a ls)) @ flatten n
          @ drop ?p (inner (LayerGroup a ls))"
        unfolding old new q(3) using q(2) by simp
      ultimately show ?thesis by blast
    qed
  qed
qed


lemma addLayerAtIndex_receiver:
  "addLayerAtIndex g n t = Inr (g', n') \<Longrightarrow>
   \<exists>r\<in>set (subtree g'). isLayerGroup r \<and> n' \<in> set (layersOf r)
      \<and> n' = mapAttrs (\<lambda>b. b\<lparr>group := Some (idOf r)\<rparr>) n"
proof (induction g arbitrary: t g')
  case (Leaf c a)
  then show ?case by simp
next
  case (LayerGroup a ls)
  let ?c = "getSize n - 1"
  show ?case
  proof (cases "scanLayers ls 0 n t ?c ?c")
    case (Inl e)
    with LayerGroup.prems show ?thesis by simp
  next
    case (Inr out)
    show ?thesis
    proof (cases out)
      case (Exited idx cur)
      with Inr LayerGroup.prems have
        "g' = LayerGroup a (take idx ls @ n' # drop idx ls)"
        "n' = mapAttrs (\<lambda>b. b\<lparr>group := Some (id' a)\<rparr>) n"
        by (auto simp: Let_def split: if_splits)
      then show ?thesis by (intro bexI [of _ g']) simp_all
    next
      case (Returned idx child' n'')
      with Inr LayerGroup.prems have g': "g' = LayerGroup a (ls[idx := child'])"
        and "n'' = n'" by auto
      from scanLayers_Returned [OF Inr [unfolded Returned]] \<open>n'' = n'\<close>
      obtain t' where j: "idx < length ls"
        and rec: "addLayerAtIndex (ls ! idx) n t' = Inr (child', n')"
        by auto
      from LayerGroup.IH [OF _ rec] j obtain r where
        r: "r \<in> set (subtree child')" "isLayerGroup r" "n' \<in> set (layersOf r)"
           "n' = mapAttrs (\<lambda>b. b\<lparr>group := Some (idOf r)\<rparr>) n" by auto
      from j have "child' \<in> set (ls[idx := child'])" by (rule set_update_memI)
      with r(1) g' have "r \<in> set (subtree g')" by auto
      with r(2,3,4) show ?thesis by blast
    qed
  qed
qed

lemma flatten_last: "\<exists>bs. flatten n = bs @ [closingSlot n]
    \<and> set bs \<subseteq> insert (OpenMarker (idOf n)) (set (inner n))
    \<and> int (length bs) = getSize n - 1"
proof (cases n)
  case (Leaf c a)
  then show ?thesis by (simp add: closingSlot_def)
next
  case (LayerGroup a ls)
  then show ?thesis
    using length_inner [of a ls]
    by (intro exI [of _ "OpenMarker (id' a) # inner n"]) (simp add: closingSlot_def inner_def)
qed

lemma inserted_slot:
  assumes "p \<le> length xs"
  shows "(take p xs @ (bs @ [x]) @ drop p xs) ! (p + length bs) = x"
proof -
  have "length (take p xs @ bs) = p + length bs" using assms by simp
  then show ?thesis by (metis append.assoc append_Cons nth_append_length)
qed

lemma indexOf_inserted:
  assumes "x \<notin> set xs" and "x \<notin> set bs"
  shows "indexOf x (take p xs @ (bs @ [x]) @ drop p xs) = Some (length (take p xs) + length bs)"
proof -
  let ?P = "\<lambda>y. y = x"
  from assms(1) have "x \<notin> set (take p xs)" by (auto dest: in_set_takeD)
  with assms(2) have "firstIndex ?P (take p xs @ bs) = None"
    by (auto simp: firstIndex_None_iff)
  moreover have "firstIndex ?P (x # drop p xs) = Some 0" by simp
  ultimately have "firstIndex ?P ((take p xs @ bs) @ (x # drop p xs))
      = Some (length (take p xs @ bs) + 0)"
    by (rule firstIndex_append_later)
  then show ?thesis by (simp add: indexOf_def)
qed

lemma leaf_size: "\<not> isLayerGroup n \<Longrightarrow> getSize n = 1"
  by (cases n) simp_all

lemma scanLayers_recurses:
  "j < length rest \<Longrightarrow> isLayerGroup (rest ! j) \<Longrightarrow>
   cur + sum_list (map getSize (take j rest)) < t \<Longrightarrow>
   t < cur + sum_list (map getSize (take j rest)) + getSize (rest ! j) \<Longrightarrow>
   scanLayers rest idx n t cur cur
     = (case addLayerAtIndex (rest ! j) n (t - (cur + sum_list (map getSize (take j rest)) + 1)) of
          Inl e \<Rightarrow> Inl e
        | Inr (child', n') \<Rightarrow> Inr (Returned (idx + j) child' n'))"
proof (induction rest arbitrary: idx cur j)
  case Nil
  then show ?case by simp
next
  case (Cons child rest)
  show ?case
  proof (cases j)
    case 0
    with Cons.prems show ?thesis by (auto simp: Let_def split: sum.splits)
  next
    case (Suc k)
    have c: "1 \<le> getSize child" by (rule getSize_pos)
    have r: "0 \<le> sum_list (map getSize (take k rest))" by (rule sum_getSize_nonneg)
    from Cons.prems Suc have k: "k < length rest" "isLayerGroup (rest ! k)"
      "(cur + getSize child) + sum_list (map getSize (take k rest)) < t"
      "t < (cur + getSize child) + sum_list (map getSize (take k rest)) + getSize (rest ! k)"
      by (simp_all add: add.assoc)
    from k(3) c r have "\<not> t \<le> cur" and "\<not> t < cur + getSize child" by linarith+
    with Cons.IH [OF k, of "Suc idx"] Suc show ?thesis
      by (auto simp: Let_def add.assoc split: sum.splits)
  qed
qed

lemma addLayerAtIndex_recurses:
  assumes "idx < length ls" and "isLayerGroup (ls ! idx)"
      and "cur = getSize n - 1 + sum_list (map getSize (take idx ls))"
      and "cur < t" and "t < cur + getSize (ls ! idx)"
  shows "addLayerAtIndex (LayerGroup a ls) n t
     = (case addLayerAtIndex (ls ! idx) n (t - (cur + 1)) of
          Inl e \<Rightarrow> Inl e
        | Inr (child', n') \<Rightarrow> Inr (LayerGroup a (ls[idx := child']), n'))"
  using scanLayers_recurses [of idx ls "getSize n - 1" t 0 n] assms
  by (auto split: sum.splits)


lemma scanLayers_exits_at:
  "j \<le> length rest \<Longrightarrow> t = cur + sum_list (map getSize (take j rest)) \<Longrightarrow>
   scanLayers rest idx n t cur cur = Inr (Exited (idx + j) t)"
proof (induction rest arbitrary: idx cur j)
  case Nil
  then show ?case by simp
next
  case (Cons child rest)
  show ?case
  proof (cases j)
    case 0
    with Cons.prems show ?thesis by simp
  next
    case (Suc k)
    have c: "1 \<le> getSize child" by (rule getSize_pos)
    have r: "0 \<le> sum_list (map getSize (take k rest))" by (rule sum_getSize_nonneg)
    from Cons.prems Suc have k: "k \<le> length rest"
      "t = (cur + getSize child) + sum_list (map getSize (take k rest))"
      by simp_all
    from k(2) c r have "\<not> t \<le> cur" and "\<not> t < cur + getSize child" by linarith+
    with Cons.IH [OF k, of "Suc idx"] Suc show ?thesis by (simp add: Let_def)
  qed
qed

lemma scanLayers_Inl_at:
  "scanLayers rest idx n t cur cur = Inl e \<Longrightarrow>
   \<exists>j<length rest. isLayerGroup (rest ! j)
      \<and> cur + sum_list (map getSize (take j rest)) < t
      \<and> t < cur + sum_list (map getSize (take j rest)) + getSize (rest ! j)
      \<and> addLayerAtIndex (rest ! j) n (t - (cur + sum_list (map getSize (take j rest)) + 1))
          = Inl e"
proof (induction rest arbitrary: idx cur)
  case Nil
  then show ?case by simp
next
  case (Cons child rest)
  from Cons.prems have above: "\<not> t \<le> cur" by (auto split: if_splits)
  show ?case
  proof (cases "t < cur + getSize child \<and> isLayerGroup child")
    case True
    with Cons.prems above
    have "addLayerAtIndex child n (t - (cur + 1)) = Inl e"
      by (auto simp: Let_def split: sum.splits prod.splits)
    with True above show ?thesis by (intro exI [of _ 0]) simp
  next
    case False
    with Cons.prems above have
      "scanLayers rest (Suc idx) n t (cur + getSize child) (cur + getSize child) = Inl e"
      by (auto simp: Let_def)
    from Cons.IH [OF this] obtain j where
      "j < length rest" "isLayerGroup (rest ! j)"
      "cur + getSize child + sum_list (map getSize (take j rest)) < t"
      "t < cur + getSize child + sum_list (map getSize (take j rest)) + getSize (rest ! j)"
      "addLayerAtIndex (rest ! j) n
         (t - (cur + getSize child + sum_list (map getSize (take j rest)) + 1)) = Inl e"
      by blast
    then show ?thesis by (intro exI [of _ "Suc j"]) (simp add: add.assoc)
  qed
qed

lemma addLayerAtIndex_direct:
  assumes "idx \<le> length ls"
      and "t = getSize n - 1 + sum_list (map getSize (take idx ls))"
  shows "addLayerAtIndex (LayerGroup a ls) n t
     = Inr (LayerGroup a (take idx ls @ mapAttrs (\<lambda>b. b\<lparr>group := Some (id' a)\<rparr>) n # drop idx ls),
            mapAttrs (\<lambda>b. b\<lparr>group := Some (id' a)\<rparr>) n)"
  using scanLayers_exits_at [OF assms, of 0 n] by (simp add: Let_def)

lemma addLayerAtIndex_neither:
  assumes direct: "\<forall>idx\<le>length ls. t \<noteq> getSize n - 1 + sum_list (map getSize (take idx ls))"
      and inside: "\<forall>idx<length ls. isLayerGroup (ls ! idx) \<longrightarrow>
            \<not> (getSize n - 1 + sum_list (map getSize (take idx ls)) < t
               \<and> t < getSize n - 1 + sum_list (map getSize (take idx ls)) + getSize (ls ! idx))"
  shows "addLayerAtIndex (LayerGroup a ls) n t = Inl AssertionError"
proof (cases "scanLayers ls 0 n t (getSize n - 1) (getSize n - 1)")
  case (Inl e)
  from scanLayers_Inl_at [OF Inl] inside show ?thesis by blast
next
  case (Inr out)
  show ?thesis
  proof (cases out)
    case (Returned idx child' n')
    from scanLayers_Returned [OF Inr [unfolded Returned]] inside show ?thesis by blast
  next
    case (Exited idx cur)
    from scanLayers_Exited [OF Inr [unfolded Exited]] direct have "cur \<noteq> t" by auto
    with Inr Exited show ?thesis by simp
  qed
qed

lemma placed:
  assumes ok: "addLayerAtIndex (LayerGroup a ls) n t = Inr (g', n')"
      and how: "\<not> isLayerGroup n
                \<or> (\<exists>idx\<le>length ls. t = getSize n - 1 + sum_list (map getSize (take idx ls)))"
  shows "\<exists>p. int p = t - (getSize n - 1) \<and> p \<le> length (inner (LayerGroup a ls))
           \<and> inner g' = take p (inner (LayerGroup a ls)) @ flatten n
                 @ drop p (inner (LayerGroup a ls))"
  using how
proof
  assume "\<not> isLayerGroup n"
  then have "getSize n = 1" by (rule leaf_size)
  with leaf_insert [OF ok this] show ?thesis by simp
next
  assume "\<exists>idx\<le>length ls. t = getSize n - 1 + sum_list (map getSize (take idx ls))"
  then obtain idx where idx: "idx \<le> length ls"
    "t = getSize n - 1 + sum_list (map getSize (take idx ls))" by blast
  from scanLayers_exits_at [OF idx, of 0 n]
  have scan: "scanLayers ls 0 n t (getSize n - 1) (getSize n - 1) = Inr (Exited idx t)" by simp
  with ok have g': "g' = LayerGroup a (take idx ls @ n' # drop idx ls)"
    and n': "n' = mapAttrs (\<lambda>b. b\<lparr>group := Some (id' a)\<rparr>) n"
    by (auto simp: Let_def)
  from direct_insert [OF scan, of n'] g' n' show ?thesis by (auto simp: inner_def)
qed


text \<open>
  Claim C3, as the specification states it, fails for a composite node: the empty group
  H is added to the snapshot root at the target index 1 and becomes the first child of
  the root, so its opening marker, which the specification takes for its flattened
  position, is in slot 0 and not in slot 1 (its closing marker is in slot 1).
\<close>

theorem addLayerAtIndex_group_counterexample:
  "addLayerAtIndex snapshotRoot nodeH 1 = Inr (LayerGroup rootAttrs [nodeH, nodeA, nodeG], nodeH)
   \<and> flattenedPosition (LayerGroup rootAttrs [nodeH, nodeA, nodeG]) nodeH = Some 0"
  by (simp add: snapshotRoot_def nodeH_def nodeA_def nodeG_def nodeB_def rootAttrs_def Let_def
        flattenedPosition_def indexOf_def inner_def openingSlot_def)

text \<open>
  A composite that the method passes down to a child composite ends one slot lower for
  each unit of its size above 1 and each level of the recursion, since the recursive
  call subtracts a running index that already holds \<open>getSize - 1\<close> of the added node:
  the group H, added at the target index 4, lands in G with its closing marker in slot
  3. The amended claim makes no statement about this case.
\<close>

lemma addLayerAtIndex_group_by_recursion:
  "addLayerAtIndex snapshotRoot nodeH 4
     = Inr (LayerGroup rootAttrs
              [nodeA, LayerGroup (attrs nodeG) [mapAttrs (\<lambda>b. b\<lparr>group := Some ''G''\<rparr>) nodeH, nodeB]],
            mapAttrs (\<lambda>b. b\<lparr>group := Some ''G''\<rparr>) nodeH)
   \<and> inner (LayerGroup rootAttrs
              [nodeA, LayerGroup (attrs nodeG) [mapAttrs (\<lambda>b. b\<lparr>group := Some ''G''\<rparr>) nodeH, nodeB]])
       = [LeafSlot ''A'', OpenMarker ''G'', OpenMarker ''H'', CloseMarker ''H'', LeafSlot ''B'',
          CloseMarker ''G'']"
  by (simp add: snapshotRoot_def nodeH_def nodeA_def nodeG_def nodeB_def rootAttrs_def Let_def
        inner_def)


text \<open>
  Claim C3, amended. For a call \<open>addLayerAtIndex(n, t)\<close> on a composite \<open>g\<close>, write
  \<open>c idx\<close> for the running index of the scan before the child \<open>idx\<close> of \<open>g\<close>, which is
  \<open>getSize n - 1\<close> plus the sizes of the children before it (\<open>idx\<close> may be the number
  of children: the running index after the last child). The call either succeeds or
  fails with an AssertionError and no tree as its result:

    \<^item> when \<open>t = c idx\<close> for some \<open>idx\<close>, \<open>g\<close> itself receives \<open>n\<close>: the call succeeds, \<open>n\<close>
      is inserted before the child \<open>idx\<close> (after the last child when \<open>idx\<close> is the
      number of children) and its back-reference is set to \<open>g\<close>;

    \<^item> when \<open>n\<close> is a leaf, the child \<open>idx\<close> is a composite and \<open>c idx < t < c idx +
      getSize child\<close>, the method calls that child with the index \<open>t - (c idx + 1)\<close>, and
      its own result is the result of that call: its failure, or \<open>g\<close> with the child
      replaced by the updated child, and \<open>n\<close> as the call returned it;

    \<^item> when \<open>t\<close> is no \<open>c idx\<close> and no composite child has \<open>c idx < t < c idx + getSize
      child\<close>, the call fails; it fails as well whenever the scan of the children of \<open>g\<close>
      ends with a running index other than \<open>t\<close>.

  When the call succeeds, \<open>n\<close> is a child of a composite \<open>r\<close> in the new subtree of \<open>g\<close>
  and differs from the node passed in only by its back-reference, which is set to \<open>r\<close>.
  If \<open>n\<close> is a leaf, or if \<open>g\<close> itself receives \<open>n\<close>, then the frame of \<open>g\<close> is the old one
  with the slots of \<open>n\<close> inserted from position \<open>t - (getSize n - 1)\<close> on, the last slot
  of \<open>n\<close> (its closing marker for a composite, its own slot for a leaf) is in slot \<open>t\<close>,
  and, when the id of \<open>n\<close> is new, that slot is the position \<open>lastSlotPosition\<close> of \<open>n\<close>.

  No statement is made on the index with which a composite \<open>n\<close> is passed down to a
  child composite.
\<close>

theorem addLayerAtIndex_places_or_fails:
  "(\<forall>g' n'. addLayerAtIndex (LayerGroup a ls) n t = Inr (g', n') \<longrightarrow>
      (\<exists>r\<in>set (subtree g'). isLayerGroup r \<and> n' \<in> set (layersOf r)
          \<and> n' = mapAttrs (\<lambda>b. b\<lparr>group := Some (idOf r)\<rparr>) n)
      \<and> (\<not> isLayerGroup n
           \<or> (\<exists>idx\<le>length ls. t = getSize n - 1 + sum_list (map getSize (take idx ls)))
          \<longrightarrow>
            (\<exists>p. int p = t - (getSize n - 1) \<and> p \<le> length (inner (LayerGroup a ls))
               \<and> inner g' = take p (inner (LayerGroup a ls)) @ flatten n'
                     @ drop p (inner (LayerGroup a ls)))
            \<and> inner g' ! nat t = closingSlot n'
            \<and> (closingSlot n \<notin> set (inner (LayerGroup a ls)) \<union> set (inner n) \<longrightarrow>
                 lastSlotPosition g' n' = Some (nat t))))
   \<and> (\<forall>idx. idx \<le> length ls
           \<and> t = getSize n - 1 + sum_list (map getSize (take idx ls)) \<longrightarrow>
        addLayerAtIndex (LayerGroup a ls) n t
          = Inr (LayerGroup a (take idx ls @ mapAttrs (\<lambda>b. b\<lparr>group := Some (id' a)\<rparr>) n
                                 # drop idx ls),
                 mapAttrs (\<lambda>b. b\<lparr>group := Some (id' a)\<rparr>) n))
   \<and> (\<not> isLayerGroup n \<longrightarrow>
        (\<forall>idx currentIndex.
           idx < length ls \<and> isLayerGroup (ls ! idx)
           \<and> currentIndex = getSize n - 1 + sum_list (map getSize (take idx ls))
           \<and> currentIndex < t \<and> t < currentIndex + getSize (ls ! idx) \<longrightarrow>
             addLayerAtIndex (LayerGroup a ls) n t
               = (case addLayerAtIndex (ls ! idx) n (t - (currentIndex + 1)) of
                    Inl e \<Rightarrow> Inl e
                  | Inr (child', n') \<Rightarrow> Inr (LayerGroup a (ls[idx := child']), n'))))
   \<and> ((\<forall>idx\<le>length ls. t \<noteq> getSize n - 1 + sum_list (map getSize (take idx ls)))
        \<and> (\<forall>idx<length ls. isLayerGroup (ls ! idx) \<longrightarrow>
              \<not> (getSize n - 1 + sum_list (map getSize (take idx ls)) < t
                 \<and> t < getSize n - 1 + sum_list (map getSize (take idx ls))
                         + getSize (ls ! idx))) \<longrightarrow>
        addLayerAtIndex (LayerGroup a ls) n t = Inl AssertionError)
   \<and> (\<forall>idx currentIndex.
        scanLayers ls 0 n t (getSize n - 1) (getSize n - 1) = Inr (Exited idx currentIndex)
        \<and> currentIndex \<noteq> t \<longrightarrow>
          addLayerAtIndex (LayerGroup a ls) n t = Inl AssertionError)
   \<and> (\<forall>e. addLayerAtIndex (LayerGroup a ls) n t = Inl e \<longrightarrow> e = AssertionError)"
proof (intro conjI allI impI)
  fix g' n'
  assume ok: "addLayerAtIndex (LayerGroup a ls) n t = Inr (g', n')"
  from addLayerAtIndex_receiver [OF ok]
  show "\<exists>r\<in>set (subtree g'). isLayerGroup r \<and> n' \<in> set (layersOf r)
          \<and> n' = mapAttrs (\<lambda>b. b\<lparr>group := Some (idOf r)\<rparr>) n" .
  then have same [simp]: "flatten n' = flatten n" "closingSlot n' = closingSlot n" by auto
  assume how: "\<not> isLayerGroup n
     \<or> (\<exists>idx\<le>length ls. t = getSize n - 1 + sum_list (map getSize (take idx ls)))"
  from placed [OF ok how] obtain p where
    p: "int p = t - (getSize n - 1)" "p \<le> length (inner (LayerGroup a ls))"
       "inner g' = take p (inner (LayerGroup a ls)) @ flatten n
           @ drop p (inner (LayerGroup a ls))" by blast
  then show "\<exists>p. int p = t - (getSize n - 1) \<and> p \<le> length (inner (LayerGroup a ls))
               \<and> inner g' = take p (inner (LayerGroup a ls)) @ flatten n'
                     @ drop p (inner (LayerGroup a ls))" by auto
  from flatten_last [of n] obtain bs where
    bs: "flatten n = bs @ [closingSlot n]"
        "set bs \<subseteq> insert (OpenMarker (idOf n)) (set (inner n))"
        "int (length bs) = getSize n - 1" by blast
  from p(1) bs(3) have t: "nat t = p + length bs" by linarith
  from inserted_slot [OF p(2), of bs "closingSlot n"]
  show "inner g' ! nat t = closingSlot n'" by (simp add: p(3) bs(1) t)
  assume fresh: "closingSlot n \<notin> set (inner (LayerGroup a ls)) \<union> set (inner n)"
  have "closingSlot n \<noteq> OpenMarker (idOf n)" by (simp add: closingSlot_def)
  with fresh bs(2) have "closingSlot n \<notin> set bs" by auto
  with indexOf_inserted [of "closingSlot n" "inner (LayerGroup a ls)" bs p] fresh p(2)
  show "lastSlotPosition g' n' = Some (nat t)"
    by (simp add: lastSlotPosition_def p(3) bs(1) t min_def)
next
  fix idx
  assume "idx \<le> length ls \<and> t = getSize n - 1 + sum_list (map getSize (take idx ls))"
  then show "addLayerAtIndex (LayerGroup a ls) n t
          = Inr (LayerGroup a (take idx ls @ mapAttrs (\<lambda>b. b\<lparr>group := Some (id' a)\<rparr>) n
                                 # drop idx ls),
                 mapAttrs (\<lambda>b. b\<lparr>group := Some (id' a)\<rparr>) n)"
    by (intro addLayerAtIndex_direct) simp_all
next
  fix idx currentIndex
  assume "idx < length ls \<and> isLayerGroup (ls ! idx)
           \<and> currentIndex = getSize n - 1 + sum_list (map getSize (take idx ls))
           \<and> currentIndex < t \<and> t < currentIndex + getSize (ls ! idx)"
  then show "addLayerAtIndex (LayerGroup a ls) n t
               = (case addLayerAtIndex (ls ! idx) n (t - (currentIndex + 1)) of
                    Inl e \<Rightarrow> Inl e
                  | Inr (child', n') \<Rightarrow> Inr (LayerGroup a (ls[idx := child']), n'))"
    by (intro addLayerAtIndex_recurses) simp_all
next
  assume "(\<forall>idx\<le>length ls. t \<noteq> getSize n - 1 + sum_list (map getSize (take idx ls)))
        \<and> (\<forall>idx<length ls. isLayerGroup (ls ! idx) \<longrightarrow>
              \<not> (getSize n - 1 + sum_list (map getSize (take idx ls)) < t
                 \<and> t < getSize n - 1 + sum_list (map getSize (take idx ls))
                         + getSize (ls ! idx)))"
  then show "addLayerAtIndex (LayerGroup a ls) n t = Inl AssertionError"
    by (intro addLayerAtIndex_neither) simp_all
next
  fix idx currentIndex
  assume "scanLayers ls 0 n t (getSize n - 1) (getSize n - 1) = Inr (Exited idx currentIndex)
     \<and> currentIndex \<noteq> t"
  then show "addLayerAtIndex (LayerGroup a ls) n t = Inl AssertionError" by simp
next
  fix e
  assume "addLayerAtIndex (LayerGroup a ls) n t = Inl e"
  with addLayerAtIndex_error [of "LayerGroup a ls" n t e] show "e = AssertionError" by simp
qed

theorem addLayerAtIndex_places_or_fails_witness:
  "addLayerAtIndex nodeG nodeC 0
     = Inr (LayerGroup (attrs nodeG) [mapAttrs (\<lambda>b. b\<lparr>group := Some ''G''\<rparr>) nodeC, nodeB],
            mapAttrs (\<lambda>b. b\<lparr>group := Some ''G''\<rparr>) nodeC)
   \<and> addLayerAtIndex snapshotRoot nodeC 2
     = Inr (LayerGroup rootAttrs
              [nodeA, LayerGroup (attrs nodeG) [mapAttrs (\<lambda>b. b\<lparr>group := Some ''G''\<rparr>) nodeC, nodeB]],
            mapAttrs (\<lambda>b. b\<lparr>group := Some ''G''\<rparr>) nodeC)
   \<and> inner (LayerGroup rootAttrs
              [nodeA, LayerGroup (attrs nodeG) [mapAttrs (\<lambda>b. b\<lparr>group := Some ''G''\<rparr>) nodeC, nodeB]])
         ! 2 = LeafSlot ''C''
   \<and> lastSlotPosition
        (LayerGroup rootAttrs
              [nodeA, LayerGroup (attrs nodeG) [mapAttrs (\<lambda>b. b\<lparr>group := Some ''G''\<rparr>) nodeC, nodeB]])
        (mapAttrs (\<lambda>b. b\<lparr>group := Some ''G''\<rparr>) nodeC) = Some 2
   \<and> addLayerAtIndex snapshotRoot nodeC 5 = Inl AssertionError"
proof -
  let ?c = "mapAttrs (\<lambda>b. b\<lparr>group := Some ''G''\<rparr>) nodeC"
  let ?g = "LayerGroup rootAttrs [nodeA, LayerGroup (attrs nodeG) [?c, nodeB]]"
  note facts = addLayerAtIndex_places_or_fails [of rootAttrs "[nodeA, nodeG]" nodeC]
  note inG = addLayerAtIndex_places_or_fails [of "attrs nodeG" "[nodeB]" nodeC 0]
  have leaf: "\<not> isLayerGroup nodeC" by (simp add: nodeC_def)
  have "(0::nat) \<le> length [nodeB]
      \<and> (0::int) = getSize nodeC - 1 + sum_list (map getSize (take 0 [nodeB]))"
    by (simp add: nodeC_def)
  with inG
  have "addLayerAtIndex (LayerGroup (attrs nodeG) [nodeB]) nodeC 0
      = Inr (LayerGroup (attrs nodeG)
               (take 0 [nodeB] @ mapAttrs (\<lambda>b. b\<lparr>group := Some (id' (attrs nodeG))\<rparr>) nodeC
                  # drop 0 [nodeB]),
             mapAttrs (\<lambda>b. b\<lparr>group := Some (id' (attrs nodeG))\<rparr>) nodeC)"
    by blast
  then have direct: "addLayerAtIndex nodeG nodeC 0 = Inr (LayerGroup (attrs nodeG) [?c, nodeB], ?c)"
    by (simp add: nodeG_def)
  have "(1::nat) < length [nodeA, nodeG] \<and> isLayerGroup ([nodeA, nodeG] ! 1)
      \<and> (1::int) = getSize nodeC - 1 + sum_list (map getSize (take 1 [nodeA, nodeG]))
      \<and> (1::int) < 2 \<and> (2::int) < 1 + getSize ([nodeA, nodeG] ! 1)"
    by (simp add: nodeA_def nodeG_def nodeB_def nodeC_def)
  with facts [of 2] leaf
  have "addLayerAtIndex (LayerGroup rootAttrs [nodeA, nodeG]) nodeC 2
      = (case addLayerAtIndex ([nodeA, nodeG] ! 1) nodeC (2 - (1 + 1)) of
           Inl e \<Rightarrow> Inl e
         | Inr (child', n') \<Rightarrow> Inr (LayerGroup rootAttrs ([nodeA, nodeG][1 := child']), n'))"
    by blast
  with direct
  have ok: "addLayerAtIndex (LayerGroup rootAttrs [nodeA, nodeG]) nodeC 2 = Inr (?g, ?c)"
    by simp
  have fresh: "closingSlot nodeC
      \<notin> set (inner (LayerGroup rootAttrs [nodeA, nodeG])) \<union> set (inner nodeC)"
    by (simp add: inner_def closingSlot_def nodeA_def nodeG_def nodeB_def nodeC_def)
  from facts [of 2] ok leaf fresh
  have placed: "inner ?g ! nat 2 = closingSlot ?c \<and> lastSlotPosition ?g ?c = Some (nat 2)"
    by blast
  have "(\<forall>idx\<le>length [nodeA, nodeG].
           (5::int) \<noteq> getSize nodeC - 1 + sum_list (map getSize (take idx [nodeA, nodeG])))
      \<and> (\<forall>idx<length [nodeA, nodeG]. isLayerGroup ([nodeA, nodeG] ! idx) \<longrightarrow>
            \<not> (getSize nodeC - 1 + sum_list (map getSize (take idx [nodeA, nodeG])) < 5
               \<and> 5 < getSize nodeC - 1 + sum_list (map getSize (take idx [nodeA, nodeG]))
                       + getSize ([nodeA, nodeG] ! idx)))"
    by (simp add: nodeA_def nodeG_def nodeB_def nodeC_def less_Suc_eq le_Suc_eq
          all_conj_distrib)
  with facts [of 5]
  have failed: "addLayerAtIndex (LayerGroup rootAttrs [nodeA, nodeG]) nodeC 5 = Inl AssertionError"
    by blast
  from direct ok placed failed show ?thesis
    by (simp add: snapshotRoot_def closingSlot_def nodeC_def)
qed

end
